theory Spec2Isabelle
  imports Main
begin

section \<open>Data model (prisma schema)\<close>

text \<open>
  The relational store of the backend, as the prisma schema declares it, restricted to
  the tables and columns the task, board and socket handlers read or write. Identifiers
  are strings (cuid). Timestamps (createdAt, updatedAt) and the comment and attachment
  tables are left out: no handler modelled here branches on them.
\<close>

type_synonym ident = string

datatype Role = ADMIN | MEMBER | VIEWER

datatype Priority = LOW | MEDIUM | HIGH | URGENT

record Workspace =
  ws_id :: ident
  ws_createdBy :: ident

record WorkspaceMember =
  wm_workspaceId :: ident
  wm_userId :: ident
  wm_role :: Role

record Project =
  pr_id :: ident
  pr_workspaceId :: ident

record Column =
  col_id :: string
  col_title :: string
  col_position :: "int option"

record Board =
  b_id :: ident
  b_name :: string
  b_projectId :: ident
  b_columns :: "Column list"

record Task =
  t_id :: ident
  t_title :: string
  t_description :: "string option"
  t_boardId :: ident
  t_columnId :: string
  t_assignedTo :: "ident option"
  t_priority :: Priority
  t_dueDate :: "string option"
  t_position :: int

record store =
  workspaces :: "Workspace list"
  members :: "WorkspaceMember list"
  projects :: "Project list"
  boards :: "Board list"
  tasks :: "Task list"

text \<open>
  createError(message, statusCode) and the error handler: 404, 403, 400, 409 and 500.
  A ZodError and the handlers' own 400 both answer 400; the database's P2025 (record to
  update not found) answers 404 and P2002 (unique constraint) answers 409.
\<close>

datatype error = NotFound | Forbidden | ValidationFailed | Conflict | InternalError

text \<open>
  The column \<open>position\<close> is a database Int of 32 bits, while the handlers compute
  with the numbers of JavaScript. A write of a position outside the range of the column
  is refused by the database client; the error handler answers 500.
\<close>

definition int32 :: "int \<Rightarrow> bool" where
  "int32 n = (- 2147483648 \<le> n \<and> n \<le> 2147483647)"

text \<open>What a handler sends: the JSON body of the response and the socket events.\<close>

datatype payload = PTask Task | PTaskOpt "Task option" | PTaskId ident

record emit =
  e_room :: string
  e_event :: string
  e_payload :: payload

datatype response =
  RTask Task | RTaskOpt "Task option" | RTasks "Task list" | RBoard Board | RMessage

type_synonym outcome = "store \<times> (error + response \<times> emit list)"

definition succeeds :: "outcome \<Rightarrow> bool" where
  "succeeds out = (case snd out of Inl _ \<Rightarrow> False | Inr _ \<Rightarrow> True)"

section \<open>Request validation (utils/validation.ts)\<close>

text \<open>
  The string formats are checked by the zod library, which is not part of the
  repository: \<open>z.string().cuid()\<close> and \<open>z.string().datetime()\<close> are parameters.
\<close>

record zod =
  z_cuid :: "string \<Rightarrow> bool"
  z_datetime :: "string \<Rightarrow> bool"

record TaskBody =
  tb_title :: string
  tb_description :: "string option"
  tb_boardId :: string
  tb_columnId :: string
  tb_assignedTo :: "string option"
  tb_priority :: "Priority option"
  tb_dueDate :: "string option"
  tb_position :: "int option"

record TaskInput =
  ti_title :: string
  ti_description :: "string option"
  ti_boardId :: string
  ti_columnId :: string
  ti_assignedTo :: "string option"
  ti_priority :: Priority
  ti_dueDate :: "string option"
  ti_position :: int

definition opt_ok :: "('a \<Rightarrow> bool) \<Rightarrow> 'a option \<Rightarrow> bool" where
  "opt_ok P x = (case x of None \<Rightarrow> True | Some v \<Rightarrow> P v)"

definition taskSchema_parse :: "zod \<Rightarrow> TaskBody \<Rightarrow> error + TaskInput" where
  "taskSchema_parse Z b =
     (if 1 \<le> length (tb_title b) \<and> length (tb_title b) \<le> 200
         \<and> opt_ok (\<lambda>d. length d \<le> 2000) (tb_description b)
         \<and> z_cuid Z (tb_boardId b)
         \<and> 1 \<le> length (tb_columnId b)
         \<and> opt_ok (z_cuid Z) (tb_assignedTo b)
         \<and> opt_ok (z_datetime Z) (tb_dueDate b)
         \<and> opt_ok (\<lambda>p. 0 \<le> p) (tb_position b)
      then Inr \<lparr> ti_title = tb_title b,
                 ti_description = tb_description b,
                 ti_boardId = tb_boardId b,
                 ti_columnId = tb_columnId b,
                 ti_assignedTo = tb_assignedTo b,
                 ti_priority = (case tb_priority b of None \<Rightarrow> MEDIUM | Some p \<Rightarrow> p),
                 ti_dueDate = tb_dueDate b,
                 ti_position = (case tb_position b of None \<Rightarrow> 0 | Some p \<Rightarrow> p) \<rparr>
      else Inl ValidationFailed)"

record TaskPatch =
  tp_title :: "string option"
  tp_description :: "string option"
  tp_columnId :: "string option"
  tp_assignedTo :: "string option"
  tp_priority :: "Priority option"
  tp_dueDate :: "string option"
  tp_position :: "int option"

definition updateTaskSchema_parse :: "zod \<Rightarrow> TaskPatch \<Rightarrow> error + TaskPatch" where
  "updateTaskSchema_parse Z p =
     (if opt_ok (\<lambda>s. 1 \<le> length s \<and> length s \<le> 200) (tp_title p)
         \<and> opt_ok (\<lambda>d. length d \<le> 2000) (tp_description p)
         \<and> opt_ok (\<lambda>c. 1 \<le> length c) (tp_columnId p)
         \<and> opt_ok (z_cuid Z) (tp_assignedTo p)
         \<and> opt_ok (z_datetime Z) (tp_dueDate p)
         \<and> opt_ok (\<lambda>n. 0 \<le> n) (tp_position p)
      then Inr p
      else Inl ValidationFailed)"

section \<open>Queries shared by the handlers\<close>

definition find_board :: "store \<Rightarrow> ident \<Rightarrow> Board option" where
  "find_board st bid = find (\<lambda>b. b_id b = bid) (boards st)"

definition find_task :: "store \<Rightarrow> ident \<Rightarrow> Task option" where
  "find_task st i = find (\<lambda>t. t_id t = i) (tasks st)"

text \<open>
  \<open>board.project.workspaceId\<close>: the relation is required, so a board whose project
  row is missing can only come from a broken store; reading through it throws.
\<close>

definition board_workspaceId :: "store \<Rightarrow> Board \<Rightarrow> ident option" where
  "board_workspaceId st b =
     map_option pr_workspaceId (find (\<lambda>p. pr_id p = b_projectId b) (projects st))"

text \<open>\<open>members: { where: { userId, role: { in: roles } } }\<close> of one workspace.\<close>

definition members_where :: "store \<Rightarrow> ident \<Rightarrow> ident \<Rightarrow> Role list \<Rightarrow> WorkspaceMember list" where
  "members_where st wid uid roles =
     filter (\<lambda>m. wm_workspaceId m = wid \<and> wm_userId m = uid \<and> wm_role m \<in> set roles)
       (members st)"

text \<open>\<open>workspaceMember.findUnique({ where: { workspaceId_userId } })\<close>\<close>

definition find_member :: "store \<Rightarrow> ident \<Rightarrow> ident \<Rightarrow> WorkspaceMember option" where
  "find_member st wid uid =
     find (\<lambda>m. wm_workspaceId m = wid \<and> wm_userId m = uid) (members st)"

definition in_column :: "ident \<Rightarrow> string \<Rightarrow> Task \<Rightarrow> bool" where
  "in_column bid cid t = (t_boardId t = bid \<and> t_columnId t = cid)"

text \<open>
  The gate every task and board handler repeats: the board must exist (404), and the
  member rows of the caller in the board's workspace, filtered by role, must not be
  empty (403). It yields the workspace identifier for the assignee check.
\<close>

definition board_gate :: "store \<Rightarrow> ident \<Rightarrow> Board option \<Rightarrow> Role list \<Rightarrow> error + ident" where
  "board_gate st uid board roles =
     (case board of
        None \<Rightarrow> Inl NotFound
      | Some b \<Rightarrow>
          (case board_workspaceId st b of
             None \<Rightarrow> Inl InternalError
           | Some wid \<Rightarrow>
               if length (members_where st wid uid roles) = 0 then Inl Forbidden
               else Inr wid))"

text \<open>\<open>if (assignedTo) { ... findUnique ... if (!assignee) throw 400 }\<close>\<close>

definition assignee_check :: "store \<Rightarrow> ident \<Rightarrow> string option \<Rightarrow> bool" where
  "assignee_check st wid a =
     (case a of
        None \<Rightarrow> True
      | Some u \<Rightarrow> if u = [] then True else find_member st wid u \<noteq> None)"

section \<open>Task handlers (controllers/taskController.ts)\<close>

subsection \<open>createTask\<close>

text \<open>\<open>task.findFirst({ where: { boardId, columnId }, orderBy: { position: 'desc' } })\<close>\<close>

definition maxPosition_query :: "store \<Rightarrow> ident \<Rightarrow> string \<Rightarrow> Task option" where
  "maxPosition_query st bid cid =
     (case sort_key (\<lambda>t. - t_position t) (filter (in_column bid cid) (tasks st)) of
        [] \<Rightarrow> None
      | t # _ \<Rightarrow> Some t)"

text \<open>
  \<open>position || (maxPosition ? maxPosition.position + 1 : 0)\<close>: the validated position
  is a number, and \<open>||\<close> takes its right operand when the left one is 0.
\<close>

definition allocate_position :: "int \<Rightarrow> Task option \<Rightarrow> int" where
  "allocate_position position maxPosition =
     (if position \<noteq> 0 then position
      else (case maxPosition of Some m \<Rightarrow> t_position m + 1 | None \<Rightarrow> 0))"

text \<open>
  \<open>task.create\<close>: the position must fit the column; the row gets the identifier
  the database generates (\<open>new_id\<close>), and the primary key refuses an identifier that is
  already there (P2002).
\<close>

definition task_create :: "store \<Rightarrow> Task \<Rightarrow> error + store" where
  "task_create st t =
     (if \<not> int32 (t_position t) then Inl InternalError
      else if t_id t \<in> set (map t_id (tasks st)) then Inl Conflict
      else Inr (st\<lparr>tasks := tasks st @ [t]\<rparr>))"

definition board_room :: "ident \<Rightarrow> string" where
  "board_room bid = ''board-'' @ bid"

text \<open>
  createTask reads (lines 9 to 66: the body, the board with the caller's member rows,
  the assignee, the task of the column with the greatest position) and then writes
  (lines 68 to 118: the new row, the event, the response). The two parts are separate
  awaits with no transaction around them, so another request can be served in between:
  the second part takes what the first one read as arguments.
\<close>

definition createTask_read ::
  "zod \<Rightarrow> store \<Rightarrow> ident \<Rightarrow> TaskBody \<Rightarrow> error + TaskInput \<times> Task option" where
  "createTask_read Z st userId body =
     (case taskSchema_parse Z body of
        Inl e \<Rightarrow> Inl e
      | Inr v \<Rightarrow>
          (case board_gate st userId (find_board st (ti_boardId v)) [ADMIN, MEMBER] of
             Inl e \<Rightarrow> Inl e
           | Inr wid \<Rightarrow>
               if \<not> assignee_check st wid (ti_assignedTo v) then Inl ValidationFailed
               else Inr (v, maxPosition_query st (ti_boardId v) (ti_columnId v))))"

definition createTask_write :: "store \<Rightarrow> ident \<Rightarrow> TaskInput \<Rightarrow> Task option \<Rightarrow> outcome" where
  "createTask_write st new_id v maxPosition =
     (let task = \<lparr> t_id = new_id,
                   t_title = ti_title v,
                   t_description = ti_description v,
                   t_boardId = ti_boardId v,
                   t_columnId = ti_columnId v,
                   t_assignedTo = ti_assignedTo v,
                   t_priority = ti_priority v,
                   t_dueDate = (case ti_dueDate v of
                                  None \<Rightarrow> None
                                | Some d \<Rightarrow> if d = [] then None else Some d),
                   t_position = allocate_position (ti_position v) maxPosition \<rparr>
      in (case task_create st task of
            Inl e \<Rightarrow> (st, Inl e)
          | Inr st' \<Rightarrow>
              (st', Inr (RTask task,
                 [\<lparr> e_room = board_room (ti_boardId v),
                    e_event = ''taskCreated'',
                    e_payload = PTask task \<rparr>]))))"

text \<open>A createTask request served with no other request in between.\<close>

definition createTask :: "zod \<Rightarrow> store \<Rightarrow> ident \<Rightarrow> ident \<Rightarrow> TaskBody \<Rightarrow> outcome" where
  "createTask Z st userId new_id body =
     (case createTask_read Z st userId body of
        Inl e \<Rightarrow> (st, Inl e)
      | Inr (v, maxPosition) \<Rightarrow> createTask_write st new_id v maxPosition)"

subsection \<open>The gate of the handlers that start from a task\<close>

text \<open>
  \<open>task.findUnique\<close> with the board, its project and the caller's member rows
  included: the task must exist (404), then the gate of its board applies.
\<close>

definition task_gate ::
  "store \<Rightarrow> ident \<Rightarrow> Task option \<Rightarrow> Role list \<Rightarrow> error + Task \<times> ident" where
  "task_gate st uid task roles =
     (case task of
        None \<Rightarrow> Inl NotFound
      | Some t \<Rightarrow>
          (case find_board st (t_boardId t) of
             None \<Rightarrow> Inl InternalError
           | Some b \<Rightarrow>
               (case board_gate st uid (Some b) roles of
                  Inl e \<Rightarrow> Inl e
                | Inr wid \<Rightarrow> Inr (t, wid))))"

subsection \<open>getTasks\<close>

text \<open>
  \<open>orderBy: { position: 'asc' }\<close> leaves the order of tasks of equal position to the
  database; the model keeps them in the order of the table.
\<close>

definition getTasks :: "store \<Rightarrow> ident \<Rightarrow> ident \<Rightarrow> outcome" where
  "getTasks st userId boardId =
     (case board_gate st userId (find_board st boardId) [ADMIN, MEMBER, VIEWER] of
        Inl e \<Rightarrow> (st, Inl e)
      | Inr wid \<Rightarrow>
          (st, Inr (RTasks (sort_key t_position
                              (filter (\<lambda>t. t_boardId t = boardId) (tasks st))), [])))"

subsection \<open>updateTask\<close>

text \<open>
  \<open>task.update({ where: { id }, data })\<close>: the row with that identifier is rewritten;
  when there is none the database answers P2025, and a position that does not fit the
  column is refused.
\<close>

definition task_update :: "store \<Rightarrow> ident \<Rightarrow> (Task \<Rightarrow> Task) \<Rightarrow> error + store" where
  "task_update st i f =
     (case find_task st i of
        None \<Rightarrow> Inl NotFound
      | Some row \<Rightarrow>
          if \<not> int32 (t_position (f row)) then Inl InternalError
          else Inr (st\<lparr>tasks := map (\<lambda>t. if t_id t = i then f t else t) (tasks st)\<rparr>))"

text \<open>The \<open>updateData\<close> object: one assignment for each field the patch defines.\<close>

definition updateData :: "TaskPatch \<Rightarrow> Task \<Rightarrow> Task" where
  "updateData p t =
     t\<lparr> t_title := (case tp_title p of None \<Rightarrow> t_title t | Some s \<Rightarrow> s),
        t_description := (case tp_description p of None \<Rightarrow> t_description t | Some d \<Rightarrow> Some d),
        t_columnId := (case tp_columnId p of None \<Rightarrow> t_columnId t | Some c \<Rightarrow> c),
        t_assignedTo := (case tp_assignedTo p of None \<Rightarrow> t_assignedTo t | Some a \<Rightarrow> Some a),
        t_priority := (case tp_priority p of None \<Rightarrow> t_priority t | Some q \<Rightarrow> q),
        t_dueDate := (case tp_dueDate p of
                        None \<Rightarrow> t_dueDate t
                      | Some d \<Rightarrow> if d = [] then None else Some d),
        t_position := (case tp_position p of None \<Rightarrow> t_position t | Some n \<Rightarrow> n) \<rparr>"

definition updateTask :: "zod \<Rightarrow> store \<Rightarrow> ident \<Rightarrow> ident \<Rightarrow> TaskPatch \<Rightarrow> outcome" where
  "updateTask Z st userId i body =
     (case updateTaskSchema_parse Z body of
        Inl e \<Rightarrow> (st, Inl e)
      | Inr v \<Rightarrow>
          (case task_gate st userId (find_task st i) [ADMIN, MEMBER] of
             Inl e \<Rightarrow> (st, Inl e)
           | Inr (task, wid) \<Rightarrow>
               if \<not> assignee_check st wid (tp_assignedTo v) then (st, Inl ValidationFailed)
               else
                 (case task_update st i (updateData v) of
                    Inl e \<Rightarrow> (st, Inl e)
                  | Inr st' \<Rightarrow>
                      (st', Inr (RTask (updateData v task),
                         [\<lparr> e_room = board_room (t_boardId task),
                            e_event = ''taskUpdated'',
                            e_payload = PTask (updateData v task) \<rparr>])))))"

subsection \<open>deleteTask\<close>

definition deleteTask :: "store \<Rightarrow> ident \<Rightarrow> ident \<Rightarrow> outcome" where
  "deleteTask st userId i =
     (case task_gate st userId (find_task st i) [ADMIN, MEMBER] of
        Inl e \<Rightarrow> (st, Inl e)
      | Inr (task, wid) \<Rightarrow>
          (st\<lparr>tasks := filter (\<lambda>t. t_id t \<noteq> i) (tasks st)\<rparr>,
           Inr (RMessage,
             [\<lparr> e_room = board_room (t_boardId task),
                e_event = ''taskDeleted'',
                e_payload = PTaskId i \<rparr>])))"

subsection \<open>moveTask\<close>

text \<open>
  The request body is read without validation; the model takes its two fields at the
  types the client declares for them (MoveTaskData: a string and a number), the number
  being an integer as the database column requires.
\<close>

record MoveBody =
  mb_columnId :: string
  mb_position :: int

text \<open>
  \<open>task.findMany({ where: { boardId, columnId, position: { gte: position } },
  orderBy: { position: 'asc' } })\<close>
\<close>

definition tasksToUpdate_query :: "store \<Rightarrow> ident \<Rightarrow> string \<Rightarrow> int \<Rightarrow> Task list" where
  "tasksToUpdate_query st bid cid pos =
     sort_key t_position
       (filter (\<lambda>t. in_column bid cid t \<and> pos \<le> t_position t) (tasks st))"

text \<open>
  The loop of the transaction: each task read before the transaction is written back
  with the position it had when it was read, plus one. A write throws when its row is
  gone, which ends the loop.
\<close>

fun shift_positions :: "store \<Rightarrow> Task list \<Rightarrow> error + store" where
  "shift_positions tx [] = Inr tx"
| "shift_positions tx (u # us) =
     (case task_update tx (t_id u) (\<lambda>t. t\<lparr>t_position := t_position u + 1\<rparr>) of
        Inl e \<Rightarrow> Inl e
      | Inr tx' \<Rightarrow> shift_positions tx' us)"

text \<open>The callback handed to \<open>prisma.$transaction\<close>: the loop, then the moved task.\<close>

definition move_writes :: "Task list \<Rightarrow> ident \<Rightarrow> MoveBody \<Rightarrow> store \<Rightarrow> error + store" where
  "move_writes tasksToUpdate i body tx =
     (case shift_positions tx tasksToUpdate of
        Inl e \<Rightarrow> Inl e
      | Inr tx' \<Rightarrow>
          task_update tx' i
            (\<lambda>t. t\<lparr>t_columnId := mb_columnId body, t_position := mb_position body\<rparr>))"

text \<open>
  \<open>prisma.$transaction(callback)\<close> is the database client's interactive transaction:
  the callback's writes are committed together when it returns and are all rolled back
  when it throws, the exception being passed on to the caller.
\<close>

definition transaction :: "(store \<Rightarrow> error + store) \<Rightarrow> store \<Rightarrow> store \<times> (error + unit)" where
  "transaction callback st =
     (case callback st of
        Inl e \<Rightarrow> (st, Inl e)
      | Inr st' \<Rightarrow> (st', Inr ()))"

text \<open>
  moveTask falls into the part that reads (the task, the gate, the tasks to shift) and
  the part that writes (the transaction, the read-back, the event and the response).
  The list of tasks to shift is read before the transaction starts, so the second part
  takes it as an argument: it is defined for a list that no longer matches the store.
\<close>

definition moveTask_commit :: "store \<Rightarrow> Task \<Rightarrow> Task list \<Rightarrow> ident \<Rightarrow> MoveBody \<Rightarrow> outcome" where
  "moveTask_commit st task tasksToUpdate i body =
     (case transaction (move_writes tasksToUpdate i body) st of
        (st', Inl e) \<Rightarrow> (st', Inl e)
      | (st', Inr _) \<Rightarrow>
          let updatedTask = find_task st' i
          in (st', Inr (RTaskOpt updatedTask,
                [\<lparr> e_room = board_room (t_boardId task),
                   e_event = ''taskMoved'',
                   e_payload = PTaskOpt updatedTask \<rparr>])))"

definition moveTask :: "store \<Rightarrow> ident \<Rightarrow> ident \<Rightarrow> MoveBody \<Rightarrow> outcome" where
  "moveTask st userId i body =
     (case task_gate st userId (find_task st i) [ADMIN, MEMBER] of
        Inl e \<Rightarrow> (st, Inl e)
      | Inr (task, wid) \<Rightarrow>
          moveTask_commit st task
            (tasksToUpdate_query st (t_boardId task) (mb_columnId body) (mb_position body))
            i body)"

section \<open>Board handlers (controllers/projectController.ts)\<close>

text \<open>The body of updateBoard is read without validation: a name and a column list.\<close>

record BoardBody =
  bb_name :: "string option"
  bb_columns :: "Column list option"

definition updateBoard :: "store \<Rightarrow> ident \<Rightarrow> ident \<Rightarrow> BoardBody \<Rightarrow> outcome" where
  "updateBoard st userId i body =
     (case find_board st i of
        None \<Rightarrow> (st, Inl NotFound)
      | Some board \<Rightarrow>
          (case board_gate st userId (Some board) [ADMIN, MEMBER] of
             Inl e \<Rightarrow> (st, Inl e)
           | Inr wid \<Rightarrow>
               let upd = (\<lambda>b. b\<lparr> b_name := (case bb_name body of
                                               None \<Rightarrow> b_name b
                                             | Some n \<Rightarrow> n),
                               b_columns := (case bb_columns body of
                                               None \<Rightarrow> b_columns b
                                             | Some cs \<Rightarrow> cs) \<rparr>)
               in (st\<lparr>boards := map (\<lambda>b. if b_id b = i then upd b else b) (boards st)\<rparr>,
                   Inr (RBoard (upd board), []))))"

text \<open>Deleting a board deletes its tasks (onDelete: Cascade).\<close>

definition deleteBoard :: "store \<Rightarrow> ident \<Rightarrow> ident \<Rightarrow> outcome" where
  "deleteBoard st userId i =
     (case board_gate st userId (find_board st i) [ADMIN, MEMBER] of
        Inl e \<Rightarrow> (st, Inl e)
      | Inr wid \<Rightarrow>
          (st\<lparr> boards := filter (\<lambda>b. b_id b \<noteq> i) (boards st),
               tasks := filter (\<lambda>t. t_boardId t \<noteq> i) (tasks st) \<rparr>,
           Inr (RMessage, [])))"

section \<open>Removing a member (controllers/workspaceController.ts)\<close>

definition removeUser :: "store \<Rightarrow> ident \<Rightarrow> ident \<Rightarrow> ident \<Rightarrow> outcome" where
  "removeUser st currentUserId i targetUserId =
     (case find (\<lambda>w. ws_id w = i) (workspaces st) of
        None \<Rightarrow> (st, Inl NotFound)
      | Some workspace \<Rightarrow>
          if length (members_where st i currentUserId [ADMIN]) = 0 then (st, Inl Forbidden)
          else if ws_createdBy workspace = targetUserId then (st, Inl ValidationFailed)
          else
            (case find_member st i targetUserId of
               None \<Rightarrow> (st, Inl NotFound)
             | Some member \<Rightarrow>
                 (st\<lparr>members := filter (\<lambda>m. \<not> (wm_workspaceId m = i \<and> wm_userId m = targetUserId))
                                  (members st)\<rparr>,
                  Inr (RMessage, []))))"

section \<open>Socket handlers (socket/handlers.ts)\<close>

text \<open>
  A connected socket carries the user the connection middleware authenticated. The
  rooms of the socket server map a room name to the sockets joined to it; they live in
  process memory only. An event goes to one socket (\<open>socket.emit\<close>), to a room without
  the sender (\<open>socket.to(room).emit\<close>) or to a whole room (\<open>io.to(room).emit\<close>).
\<close>

record socket =
  s_id :: string
  s_user :: ident

type_synonym rooms = "string \<Rightarrow> socket set"

datatype target = ToSocket socket | ToRoomExcept string socket | ToRoom string

datatype sock_data = SMessage string | SUserBoard ident ident | SBoard ident

record sock_emit =
  se_target :: target
  se_event :: string
  se_data :: sock_data

definition workspace_room :: "ident \<Rightarrow> string" where
  "workspace_room wid = ''workspace-'' @ wid"

text \<open>
  join-board: the lookup and both checks are the gate of the read handlers (any role);
  whatever else the lookup throws is caught and reported as a failure to join.
\<close>

definition join_board :: "store \<Rightarrow> rooms \<Rightarrow> socket \<Rightarrow> ident \<Rightarrow> rooms \<times> sock_emit list" where
  "join_board st rs sock boardId =
     (case board_gate st (s_user sock) (find_board st boardId) [ADMIN, MEMBER, VIEWER] of
        Inl NotFound \<Rightarrow>
          (rs, [\<lparr> se_target = ToSocket sock, se_event = ''error'',
                  se_data = SMessage ''Board not found'' \<rparr>])
      | Inl Forbidden \<Rightarrow>
          (rs, [\<lparr> se_target = ToSocket sock, se_event = ''error'',
                  se_data = SMessage ''Access denied'' \<rparr>])
      | Inl _ \<Rightarrow>
          (rs, [\<lparr> se_target = ToSocket sock, se_event = ''error'',
                  se_data = SMessage ''Failed to join board'' \<rparr>])
      | Inr _ \<Rightarrow>
          (rs(board_room boardId := insert sock (rs (board_room boardId))),
           [\<lparr> se_target = ToRoomExcept (board_room boardId) sock, se_event = ''user-joined'',
              se_data = SUserBoard (s_user sock) boardId \<rparr>,
            \<lparr> se_target = ToSocket sock, se_event = ''joined-board'',
              se_data = SBoard boardId \<rparr>]))"

definition leave_board :: "rooms \<Rightarrow> socket \<Rightarrow> ident \<Rightarrow> rooms \<times> sock_emit list" where
  "leave_board rs sock boardId =
     (rs(board_room boardId := rs (board_room boardId) - {sock}),
      [\<lparr> se_target = ToRoomExcept (board_room boardId) sock, se_event = ''user-left'',
         se_data = SUserBoard (s_user sock) boardId \<rparr>])"

definition join_workspace :: "store \<Rightarrow> rooms \<Rightarrow> socket \<Rightarrow> ident \<Rightarrow> rooms \<times> sock_emit list" where
  "join_workspace st rs sock workspaceId =
     (case find (\<lambda>w. ws_id w = workspaceId) (workspaces st) of
        None \<Rightarrow>
          (rs, [\<lparr> se_target = ToSocket sock, se_event = ''error'',
                  se_data = SMessage ''Workspace not found'' \<rparr>])
      | Some w \<Rightarrow>
          if length (members_where st workspaceId (s_user sock) [ADMIN, MEMBER, VIEWER]) = 0
          then (rs, [\<lparr> se_target = ToSocket sock, se_event = ''error'',
                       se_data = SMessage ''Access denied'' \<rparr>])
          else
            (rs(workspace_room workspaceId := insert sock (rs (workspace_room workspaceId))),
             [\<lparr> se_target = ToRoomExcept (workspace_room workspaceId) sock,
                se_event = ''user-joined-workspace'',
                se_data = SUserBoard (s_user sock) workspaceId \<rparr>,
              \<lparr> se_target = ToSocket sock, se_event = ''joined-workspace'',
                se_data = SBoard workspaceId \<rparr>]))"

definition leave_workspace :: "rooms \<Rightarrow> socket \<Rightarrow> ident \<Rightarrow> rooms \<times> sock_emit list" where
  "leave_workspace rs sock workspaceId =
     (rs(workspace_room workspaceId := rs (workspace_room workspaceId) - {sock}),
      [\<lparr> se_target = ToRoomExcept (workspace_room workspaceId) sock,
         se_event = ''user-left-workspace'',
         se_data = SUserBoard (s_user sock) workspaceId \<rparr>])"

text \<open>The sockets an event of a handler reaches: \<open>io.to(room).emit\<close>.\<close>

definition recipients :: "rooms \<Rightarrow> emit \<Rightarrow> socket set" where
  "recipients rs e = rs (e_room e)"

section \<open>Properties of the store\<close>

text \<open>The constraints the schema puts on the tables: primary keys and \<open>@@unique\<close>.\<close>

definition unique_task_ids :: "store \<Rightarrow> bool" where
  "unique_task_ids st = distinct (map t_id (tasks st))"

definition unique_members :: "store \<Rightarrow> bool" where
  "unique_members st = distinct (map (\<lambda>m. (wm_workspaceId m, wm_userId m)) (members st))"

definition unique_board_ids :: "store \<Rightarrow> bool" where
  "unique_board_ids st = distinct (map b_id (boards st))"

definition role_of :: "store \<Rightarrow> ident \<Rightarrow> ident \<Rightarrow> Role option" where
  "role_of st wid uid = map_option wm_role (find_member st wid uid)"

definition column_positions :: "store \<Rightarrow> ident \<Rightarrow> string \<Rightarrow> int list" where
  "column_positions st bid cid = map t_position (filter (in_column bid cid) (tasks st))"

text \<open>
  The ordering invariant as the specification words it: the positions of a column are
  \<open>0, 1, ..., n - 1\<close>, each once.
\<close>

definition dense :: "int list \<Rightarrow> bool" where
  "dense ps = (distinct ps \<and> set ps = {0 ..< int (length ps)})"

text \<open>
  Sequences of create and move requests that are served one at a time: each request is
  answered before the next one is read. A request that fails leaves the store as it
  was, so the store after a sequence is the store after its committed requests.
\<close>

datatype op = CreateTask ident ident TaskBody | MoveTask ident ident MoveBody

fun commit :: "zod \<Rightarrow> store \<Rightarrow> op \<Rightarrow> store" where
  "commit Z st (CreateTask userId new_id body) = fst (createTask Z st userId new_id body)"
| "commit Z st (MoveTask userId i body) = fst (moveTask st userId i body)"

definition run :: "zod \<Rightarrow> store \<Rightarrow> op list \<Rightarrow> store" where
  "run Z st ops = foldl (commit Z) st ops"

text \<open>
  Two createTask requests that overlap: both are read on the same store before either
  of them writes.
\<close>

definition createTask_overlapped ::
  "zod \<Rightarrow> store \<Rightarrow> ident \<Rightarrow> ident \<Rightarrow> TaskBody \<Rightarrow> ident \<Rightarrow> ident \<Rightarrow> TaskBody \<Rightarrow> store" where
  "createTask_overlapped Z st user1 id1 body1 user2 id2 body2 =
     (case createTask_read Z st user1 body1 of
        Inl _ \<Rightarrow> fst (createTask Z st user2 id2 body2)
      | Inr (v1, max1) \<Rightarrow>
          (case createTask_read Z st user2 body2 of
             Inl _ \<Rightarrow> fst (createTask_write st id1 v1 max1)
           | Inr (v2, max2) \<Rightarrow>
               fst (createTask_write (fst (createTask_write st id1 v1 max1)) id2 v2 max2)))"

text \<open>A create request that supplies no position, and any move request.\<close>

fun appends :: "op \<Rightarrow> bool" where
  "appends (CreateTask _ _ body) = (tb_position body = None)"
| "appends (MoveTask _ _ _) = True"

fun is_create :: "op \<Rightarrow> bool" where
  "is_create (CreateTask _ _ _) = True"
| "is_create (MoveTask _ _ _) = False"

text \<open>The tasks of the store after a committed move, written as one pass over them.\<close>

definition moved :: "Task \<Rightarrow> MoveBody \<Rightarrow> Task \<Rightarrow> Task" where
  "moved task body t =
     (if t_id t = t_id task
      then t\<lparr>t_columnId := mb_columnId body, t_position := mb_position body\<rparr>
      else if in_column (t_boardId task) (mb_columnId body) t \<and> mb_position body \<le> t_position t
      then t\<lparr>t_position := t_position t + 1\<rparr>
      else t)"

text \<open>
  Two tasks in the same place, and a task list in which no two tasks of a board are: the
  reading of "no duplicates" that refers to the tasks rather than to the list of
  positions.
\<close>

definition same_slot :: "Task \<Rightarrow> Task \<Rightarrow> bool" where
  "same_slot x y =
     (t_boardId x = t_boardId y \<and> t_columnId x = t_columnId y \<and> t_position x = t_position y)"

definition slots_free :: "ident \<Rightarrow> Task list \<Rightarrow> bool" where
  "slots_free bid ts =
     (\<forall>x\<in>set ts. \<forall>y\<in>set ts. t_boardId x = bid \<longrightarrow> same_slot x y \<longrightarrow> t_id x = t_id y)"

text \<open>A board without tasks.\<close>

definition empty_board :: "store \<Rightarrow> ident \<Rightarrow> bool" where
  "empty_board st bid = (filter (\<lambda>t. t_boardId t = bid) (tasks st) = [])"

text \<open>
  Whether every write of a move stores a position that fits the column: the position
  of the moved task and the positions, plus one, of the tasks to shift.
\<close>

definition writes_fit :: "store \<Rightarrow> Task \<Rightarrow> MoveBody \<Rightarrow> bool" where
  "writes_fit st task body =
     (int32 (mb_position body)
      \<and> list_all (\<lambda>u. int32 (t_position u + 1))
            (tasksToUpdate_query st (t_boardId task) (mb_columnId body) (mb_position body)))"

text \<open>Membership of a user in the workspace a board belongs to.\<close>

definition is_board_member :: "store \<Rightarrow> ident \<Rightarrow> ident \<Rightarrow> bool" where
  "is_board_member st boardId uid =
     (case find_board st boardId of
        None \<Rightarrow> False
      | Some b \<Rightarrow>
          (case board_workspaceId st b of
             None \<Rightarrow> False
           | Some wid \<Rightarrow> find_member st wid uid \<noteq> None))"

text \<open>Socket requests and member removals, interleaved.\<close>

datatype event =
  JoinBoard socket ident
| LeaveBoard socket ident
| JoinWorkspace socket ident
| LeaveWorkspace socket ident
| RemoveUser ident ident ident

fun step :: "store \<times> rooms \<Rightarrow> event \<Rightarrow> store \<times> rooms" where
  "step (st, rs) (JoinBoard sock b) = (st, fst (join_board st rs sock b))"
| "step (st, rs) (LeaveBoard sock b) = (st, fst (leave_board rs sock b))"
| "step (st, rs) (JoinWorkspace sock w) = (st, fst (join_workspace st rs sock w))"
| "step (st, rs) (LeaveWorkspace sock w) = (st, fst (leave_workspace rs sock w))"
| "step (st, rs) (RemoveUser cur w target) = (fst (removeUser st cur w target), rs)"

definition steps :: "store \<times> rooms \<Rightarrow> event list \<Rightarrow> store \<times> rooms" where
  "steps s es = foldl step s es"

fun socket_event :: "event \<Rightarrow> bool" where
  "socket_event (RemoveUser _ _ _) = False"
| "socket_event _ = True"

section \<open>A workspace for the examples\<close>

text \<open>
  An instance of the two format checks: identifiers in the cuid format of zod 3 (the
  letter c, then at least eight characters other than white space and the hyphen), and
  UTC timestamps of the form \<open>YYYY-MM-DDTHH:MM:SSZ\<close>.
\<close>

definition cuid_format :: "string \<Rightarrow> bool" where
  "cuid_format s =
     (case s of
        [] \<Rightarrow> False
      | c # r \<Rightarrow> (c = CHR ''c'' \<or> c = CHR ''C'') \<and> 8 \<le> length r
                 \<and> list_all (\<lambda>x. x \<noteq> CHR ''-'' \<and> x \<noteq> CHR '' '' \<and> x \<noteq> CHR 0x09
                                  \<and> x \<noteq> CHR 0x0A \<and> x \<noteq> CHR 0x0D) r)"

definition digit :: "char \<Rightarrow> bool" where
  "digit c = (c \<in> set ''0123456789'')"

definition datetime_format :: "string \<Rightarrow> bool" where
  "datetime_format s =
     (length s = 20
      \<and> list_all digit (take 4 s) \<and> s ! 4 = CHR ''-''
      \<and> list_all digit (take 2 (drop 5 s)) \<and> s ! 7 = CHR ''-''
      \<and> list_all digit (take 2 (drop 8 s)) \<and> s ! 10 = CHR ''T''
      \<and> list_all digit (take 2 (drop 11 s)) \<and> s ! 13 = CHR '':''
      \<and> list_all digit (take 2 (drop 14 s)) \<and> s ! 16 = CHR '':''
      \<and> list_all digit (take 2 (drop 17 s)) \<and> s ! 19 = CHR ''Z'')"

definition zod3 :: zod where
  "zod3 = \<lparr> z_cuid = cuid_format, z_datetime = datetime_format \<rparr>"

text \<open>
  Workspace W with an ADMIN, a MEMBER and a VIEWER; one project, whose board has the
  columns todo, doing and done; no task yet.
\<close>

definition W :: store where
  "W = \<lparr> workspaces = [\<lparr> ws_id = ''cworkspc1'', ws_createdBy = ''cuseradm1'' \<rparr>],
         members = [\<lparr> wm_workspaceId = ''cworkspc1'', wm_userId = ''cuseradm1'', wm_role = ADMIN \<rparr>,
                    \<lparr> wm_workspaceId = ''cworkspc1'', wm_userId = ''cusermem1'', wm_role = MEMBER \<rparr>,
                    \<lparr> wm_workspaceId = ''cworkspc1'', wm_userId = ''cuservie1'', wm_role = VIEWER \<rparr>],
         projects = [\<lparr> pr_id = ''cproject1'', pr_workspaceId = ''cworkspc1'' \<rparr>],
         boards = [\<lparr> b_id = ''cboard001'', b_name = ''Main Board'', b_projectId = ''cproject1'',
                     b_columns = [\<lparr> col_id = ''todo'', col_title = ''To Do'', col_position = None \<rparr>,
                                  \<lparr> col_id = ''doing'', col_title = ''Doing'', col_position = None \<rparr>,
                                  \<lparr> col_id = ''done'', col_title = ''Done'', col_position = None \<rparr>] \<rparr>],
         tasks = [] \<rparr>"

definition new_task :: "string \<Rightarrow> string \<Rightarrow> int option \<Rightarrow> TaskBody" where
  "new_task title cid pos =
     \<lparr> tb_title = title, tb_description = None, tb_boardId = ''cboard001'',
       tb_columnId = cid, tb_assignedTo = None, tb_priority = None, tb_dueDate = None,
       tb_position = pos \<rparr>"

text \<open>A task of the board of workspace W, and one of a board of another project.\<close>

definition a_task :: "ident \<Rightarrow> string \<Rightarrow> string \<Rightarrow> int \<Rightarrow> Task" where
  "a_task i title cid pos =
     \<lparr> t_id = i, t_title = title, t_description = None, t_boardId = ''cboard001'',
       t_columnId = cid, t_assignedTo = None, t_priority = MEDIUM, t_dueDate = None,
       t_position = pos \<rparr>"

definition other_task :: Task where
  "other_task = (a_task ''ctask0900'' ''Z'' ''todo'' 7)\<lparr>t_boardId := ''cboard002''\<rparr>"

definition no_patch :: TaskPatch where
  "no_patch = \<lparr> tp_title = None, tp_description = None, tp_columnId = None,
                 tp_assignedTo = None, tp_priority = None, tp_dueDate = None,
                 tp_position = None \<rparr>"

definition a_column :: "string \<Rightarrow> string \<Rightarrow> Column" where
  "a_column i title = \<lparr> col_id = i, col_title = title, col_position = None \<rparr>"

definition member_socket :: socket where
  "member_socket = \<lparr> s_id = ''Jx3kQe9TzB1uWm7cAAAB'', s_user = ''cusermem1'' \<rparr>"


section \<open>The store after a move\<close>

lemma find_SomeD: "find P xs = Some x \<Longrightarrow> x \<in> set xs \<and> P x"
  by (induction xs) (simp_all split: if_splits)

lemma find_task_Some:
  "find_task st i = Some t \<Longrightarrow> t \<in> set (tasks st) \<and> t_id t = i"
  using find_SomeD[of "\<lambda>t. t_id t = i" "tasks st" t] by (simp add: find_task_def)

lemma find_task_exists:
  "i \<in> t_id ` set (tasks st) \<Longrightarrow> \<exists>row. find_task st i = Some row"
  unfolding find_task_def
  by (cases "find (\<lambda>t. t_id t = i) (tasks st)") (auto simp: find_None_iff)

lemma task_update_exists:
  assumes "i \<in> t_id ` set (tasks st)"
    and "\<And>row. t_position (f row) = p"
  shows "task_update st i f =
           (if int32 p
            then Inr (st\<lparr>tasks := map (\<lambda>t. if t_id t = i then f t else t) (tasks st)\<rparr>)
            else Inl InternalError)"
proof -
  from find_task_exists[OF assms(1)] obtain row where "find_task st i = Some row" by blast
  then show ?thesis by (simp add: task_update_def assms(2))
qed

lemma task_update_Inr:
  "task_update st i f = Inr st' \<Longrightarrow>
     st' = st\<lparr>tasks := map (\<lambda>t. if t_id t = i then f t else t) (tasks st)\<rparr>"
  by (simp add: task_update_def split: option.splits if_splits)

lemma shift_positions_snapshot:
  "t_id ` set us \<subseteq> t_id ` set (tasks st) \<Longrightarrow>
   shift_positions st us =
     (if list_all (\<lambda>u. int32 (t_position u + 1)) us
      then Inr (st\<lparr>tasks := map (\<lambda>t. foldl (\<lambda>t u. if t_id t = t_id u
                                              then t\<lparr>t_position := t_position u + 1\<rparr> else t) t us)
                          (tasks st)\<rparr>)
      else Inl InternalError)"
proof (induction us arbitrary: st)
  case Nil
  then show ?case by simp
next
  case (Cons u us)
  let ?st = "st\<lparr>tasks := map (\<lambda>t. if t_id t = t_id u then t\<lparr>t_position := t_position u + 1\<rparr> else t) (tasks st)\<rparr>"
  have m: "t_id u \<in> t_id ` set (tasks st)" using Cons.prems by simp
  have u: "task_update st (t_id u) (\<lambda>t. t\<lparr>t_position := t_position u + 1\<rparr>) =
             (if int32 (t_position u + 1) then Inr ?st else Inl InternalError)"
    by (rule task_update_exists[OF m]) simp
  show ?case
  proof (cases "int32 (t_position u + 1)")
    case False
    then show ?thesis using u by simp
  next
    case True
    have "\<And>t. t_id (if t_id t = t_id u then t\<lparr>t_position := t_position u + 1\<rparr> else t) = t_id t"
      by simp
    then have "map t_id (tasks ?st) = map t_id (tasks st)"
      by (simp add: comp_def)
    then have ids: "t_id ` set (tasks ?st) = t_id ` set (tasks st)"
      by (metis set_map)
    have "t_id ` set us \<subseteq> t_id ` set (tasks ?st)"
      using Cons.prems unfolding ids by simp
    from Cons.IH[OF this] u True show ?thesis
      by (simp add: comp_def)
  qed
qed

lemma foldl_shift_fixed:
  "\<forall>u\<in>set us. t_id u = t_id t \<longrightarrow> t\<lparr>t_position := t_position u + 1\<rparr> = t \<Longrightarrow>
   foldl (\<lambda>t u. if t_id t = t_id u then t\<lparr>t_position := t_position u + 1\<rparr> else t) t us = t"
  by (induction us) auto

lemma foldl_shift_snapshot:
  "\<forall>u\<in>set us. t_id u = t_id t \<longrightarrow> u = t \<Longrightarrow>
   foldl (\<lambda>t u. if t_id t = t_id u then t\<lparr>t_position := t_position u + 1\<rparr> else t) t us
     = (if t \<in> set us then t\<lparr>t_position := t_position t + 1\<rparr> else t)"
proof (induction us)
  case Nil
  then show ?case by simp
next
  case (Cons u us)
  show ?case
  proof (cases "t_id u = t_id t")
    case True
    then have ut: "u = t" using Cons.prems by simp
    have "foldl (\<lambda>t u. if t_id t = t_id u then t\<lparr>t_position := t_position u + 1\<rparr> else t)
            (t\<lparr>t_position := t_position t + 1\<rparr>) us = t\<lparr>t_position := t_position t + 1\<rparr>"
      using Cons.prems by (intro foldl_shift_fixed) auto
    then show ?thesis using ut by simp
  next
    case False
    then have "u \<noteq> t" by auto
    then show ?thesis using False Cons by auto
  qed
qed

lemma unique_ids_eq:
  "unique_task_ids st \<Longrightarrow> t \<in> set (tasks st) \<Longrightarrow> u \<in> set (tasks st) \<Longrightarrow> t_id u = t_id t \<Longrightarrow> u = t"
  by (auto simp: unique_task_ids_def distinct_map dest: inj_onD)

lemma set_tasksToUpdate:
  "set (tasksToUpdate_query st bid cid pos)
     = {t \<in> set (tasks st). in_column bid cid t \<and> pos \<le> t_position t}"
  by (auto simp: tasksToUpdate_query_def)

lemma task_gate_Inr:
  "task_gate st uid (find_task st i) roles = Inr (task, wid) \<Longrightarrow> find_task st i = Some task"
  by (simp add: task_gate_def split: option.splits sum.splits)

lemma move_writes_snapshot:
  assumes u: "unique_task_ids st" and f: "find_task st i = Some task"
  shows "move_writes (tasksToUpdate_query st (t_boardId task) (mb_columnId body) (mb_position body))
           i body st
         = (if writes_fit st task body
            then Inr (st\<lparr>tasks := map (moved task body) (tasks st)\<rparr>)
            else Inl InternalError)"
proof -
  define us where "us = tasksToUpdate_query st (t_boardId task) (mb_columnId body) (mb_position body)"
  define sh :: "Task \<Rightarrow> Task" where "sh = (\<lambda>t. foldl (\<lambda>t u. if t_id t = t_id u then t\<lparr>t_position := t_position u + 1\<rparr> else t) t us)"
  define fin :: "Task \<Rightarrow> Task" where "fin = (\<lambda>t. if t_id t = i
                     then t\<lparr>t_columnId := mb_columnId body, t_position := mb_position body\<rparr> else t)"
  have sub: "set us \<subseteq> set (tasks st)" by (auto simp: us_def set_tasksToUpdate)
  then have "t_id ` set us \<subseteq> t_id ` set (tasks st)" by blast
  then have s: "shift_positions st us =
      (if list_all (\<lambda>u. int32 (t_position u + 1)) us
       then Inr (st\<lparr>tasks := map sh (tasks st)\<rparr>) else Inl InternalError)"
    unfolding sh_def by (rule shift_positions_snapshot)
  have sh: "sh t = (if t \<in> set us then t\<lparr>t_position := t_position t + 1\<rparr> else t)"
    if "t \<in> set (tasks st)" for t
  proof -
    have "\<forall>x\<in>set us. t_id x = t_id t \<longrightarrow> x = t"
      using that sub unique_ids_eq[OF u] by blast
    then show ?thesis unfolding sh_def by (rule foldl_shift_snapshot)
  qed
  from f have ti: "task \<in> set (tasks st)" "t_id task = i" using find_task_Some by auto
  have "t_id (sh task) = i" using sh[OF ti(1)] ti(2) by simp
  then have "i \<in> t_id ` set (map sh (tasks st))"
    using ti(1) by (metis image_eqI list.set_map)
  then have "i \<in> t_id ` set (tasks (st\<lparr>tasks := map sh (tasks st)\<rparr>))" by simp
  then have w: "task_update (st\<lparr>tasks := map sh (tasks st)\<rparr>) i
            (\<lambda>t. t\<lparr>t_columnId := mb_columnId body, t_position := mb_position body\<rparr>)
          = (if int32 (mb_position body)
             then Inr (st\<lparr>tasks := map fin (map sh (tasks st))\<rparr>) else Inl InternalError)"
    unfolding fin_def by (subst task_update_exists[where p = "mb_position body"]) simp_all
  have "fin (sh t) = moved task body t" if t: "t \<in> set (tasks st)" for t
  proof (cases "t_id t = i")
    case True
    then show ?thesis using sh[OF t] ti(2) by (simp add: fin_def moved_def)
  next
    case False
    have "t \<in> set us \<longleftrightarrow> in_column (t_boardId task) (mb_columnId body) t \<and> mb_position body \<le> t_position t"
      using t by (simp add: us_def set_tasksToUpdate)
    then show ?thesis using False sh[OF t] ti(2) by (simp add: fin_def moved_def)
  qed
  then have "map fin (map sh (tasks st)) = map (moved task body) (tasks st)"
    by simp
  with s w show ?thesis by (simp add: move_writes_def writes_fit_def us_def)
qed

lemma moved_id [simp]: "t_id (moved task body t) = t_id t"
  by (simp add: moved_def)

lemma moved_board [simp]: "t_boardId (moved task body t) = t_boardId t"
  by (simp add: moved_def)

lemma find_map_option: "find P (map f xs) = map_option f (find (P \<circ> f) xs)"
  by (induction xs) auto

lemma find_task_moved:
  "find_task (st\<lparr>tasks := map (moved task body) (tasks st)\<rparr>) i
     = map_option (moved task body) (find_task st i)"
  by (simp add: find_task_def find_map_option comp_def)

lemma moveTask_outcome:
  assumes u: "unique_task_ids st"
    and g: "task_gate st uid (find_task st i) [ADMIN, MEMBER] = Inr (task, wid)"
  shows "moveTask st uid i body =
           (if writes_fit st task body
            then (st\<lparr>tasks := map (moved task body) (tasks st)\<rparr>,
                  Inr (RTaskOpt (Some (moved task body task)),
                       [\<lparr> e_room = board_room (t_boardId task), e_event = ''taskMoved'',
                          e_payload = PTaskOpt (Some (moved task body task)) \<rparr>]))
            else (st, Inl InternalError))"
proof -
  from g have f: "find_task st i = Some task" by (rule task_gate_Inr)
  show ?thesis
    using g f by (simp add: moveTask_def moveTask_commit_def transaction_def
        move_writes_snapshot[OF u f] find_task_moved Let_def)
qed

lemma moveTask_failed:
  "task_gate st uid (find_task st i) [ADMIN, MEMBER] = Inl e \<Longrightarrow> moveTask st uid i body = (st, Inl e)"
  by (simp add: moveTask_def)


section \<open>updateTask and the column of a task\<close>

lemma W_simps:
  "tasks W = []" "unique_task_ids W" "unique_members W"
  by (simp_all add: W_def unique_task_ids_def unique_members_def)

lemma find_updated:
  "(\<And>x. t_id (f x) = t_id x) \<Longrightarrow>
   find (\<lambda>t. t_id t = i) (map (\<lambda>x. if t_id x = i then f x else x) xs)
     = map_option f (find (\<lambda>t. t_id t = i) xs)"
  by (induction xs) auto

text \<open>
  C3, as stated: updateTask never changes the position or the columnId of the task.
  It fails: a MEMBER patches the only task of the board, which sits in column todo at
  position 0, with columnId done and position 7, and the task is stored with both.
\<close>

theorem updateTask_moves_counterexample:
  "map (\<lambda>t. (t_columnId t, t_position t))
     (tasks (W\<lparr>tasks := [a_task ''ctask0001'' ''A'' ''todo'' 0]\<rparr>)) = [(''todo'', 0)]
   \<and> map (\<lambda>t. (t_columnId t, t_position t))
     (tasks (fst (updateTask zod3 (W\<lparr>tasks := [a_task ''ctask0001'' ''A'' ''todo'' 0]\<rparr>)
                    ''cusermem1'' ''ctask0001''
                    (no_patch\<lparr>tp_columnId := Some ''done'', tp_position := Some 7\<rparr>))))
       = [(''done'', 7)]"
  by (simp add: updateTask_def updateTaskSchema_parse_def opt_ok_def no_patch_def W_def a_task_def
      task_gate_def find_task_def find_board_def board_gate_def board_workspaceId_def
      members_where_def assignee_check_def task_update_def updateData_def int32_def)

text \<open>
  C3, amended: updateTask writes the columnId and the position that the patch supplies
  and leaves each of the two fields as it was when the patch does not supply it; so
  moveTask is not the only handler that reassigns column and position.
\<close>

theorem updateTask_column_position:
  assumes "find_task st i = Some t"
    and "succeeds (updateTask Z st uid i patch)"
  shows "\<exists>t'. find_task (fst (updateTask Z st uid i patch)) i = Some t'
           \<and> t_columnId t' = (case tp_columnId patch of None \<Rightarrow> t_columnId t | Some c \<Rightarrow> c)
           \<and> t_position t' = (case tp_position patch of None \<Rightarrow> t_position t | Some n \<Rightarrow> n)"
proof -
  have id: "\<And>x. t_id (updateData patch x) = t_id x" by (simp add: updateData_def)
  from assms(2) have p: "updateTaskSchema_parse Z patch = Inr patch"
    by (auto simp: succeeds_def updateTask_def updateTaskSchema_parse_def split: sum.splits if_splits)
  from assms(2) p have st': "fst (updateTask Z st uid i patch)
      = st\<lparr>tasks := map (\<lambda>x. if t_id x = i then updateData patch x else x) (tasks st)\<rparr>"
    by (auto simp: succeeds_def updateTask_def split: sum.splits if_splits prod.splits
        dest: task_update_Inr)
  have "find_task (fst (updateTask Z st uid i patch)) i = Some (updateData patch t)"
    using assms(1) unfolding st' find_task_def
    by (simp add: find_updated[of "updateData patch", OF id])
  then show ?thesis by (simp add: updateData_def)
qed

lemma updateTask_example:
  "updateTask zod3 (W\<lparr>tasks := [a_task ''ctask0001'' ''A'' ''todo'' 0]\<rparr>) ''cusermem1'' ''ctask0001''
     (no_patch\<lparr>tp_title := Some ''B''\<rparr>)
   = (W\<lparr>tasks := [a_task ''ctask0001'' ''B'' ''todo'' 0]\<rparr>,
      Inr (RTask (a_task ''ctask0001'' ''B'' ''todo'' 0),
           [\<lparr> e_room = ''board-cboard001'', e_event = ''taskUpdated'',
              e_payload = PTask (a_task ''ctask0001'' ''B'' ''todo'' 0) \<rparr>]))"
  by (simp add: updateTask_def updateTaskSchema_parse_def opt_ok_def no_patch_def W_def a_task_def
      task_gate_def find_task_def find_board_def board_gate_def board_workspaceId_def
      members_where_def assignee_check_def task_update_def updateData_def board_room_def int32_def)

theorem updateTask_column_position_witness:
  "find_task (W\<lparr>tasks := [a_task ''ctask0001'' ''A'' ''todo'' 0]\<rparr>) ''ctask0001''
     = Some (a_task ''ctask0001'' ''A'' ''todo'' 0)
   \<and> succeeds (updateTask zod3 (W\<lparr>tasks := [a_task ''ctask0001'' ''A'' ''todo'' 0]\<rparr>)
        ''cusermem1'' ''ctask0001'' (no_patch\<lparr>tp_title := Some ''B''\<rparr>))
   \<and> (\<exists>t'. find_task (fst (updateTask zod3 (W\<lparr>tasks := [a_task ''ctask0001'' ''A'' ''todo'' 0]\<rparr>)
        ''cusermem1'' ''ctask0001'' (no_patch\<lparr>tp_title := Some ''B''\<rparr>))) ''ctask0001'' = Some t'
        \<and> t_columnId t' = ''todo'' \<and> t_position t' = 0)"
proof -
  have f: "find_task (W\<lparr>tasks := [a_task ''ctask0001'' ''A'' ''todo'' 0]\<rparr>) ''ctask0001''
     = Some (a_task ''ctask0001'' ''A'' ''todo'' 0)"
    by (simp add: find_task_def a_task_def)
  have s: "succeeds (updateTask zod3 (W\<lparr>tasks := [a_task ''ctask0001'' ''A'' ''todo'' 0]\<rparr>)
        ''cusermem1'' ''ctask0001'' (no_patch\<lparr>tp_title := Some ''B''\<rparr>))"
    by (simp add: updateTask_example succeeds_def)
  show ?thesis
    using f s updateTask_column_position[OF f s]
    by (simp add: no_patch_def a_task_def)
qed


section \<open>Roles and the gate\<close>

lemmas eval_defs =
  W_def a_task_def new_task_def a_column_def zod3_def cuid_format_def datetime_format_def
  digit_def no_patch_def member_socket_def
  succeeds_def opt_ok_def taskSchema_parse_def updateTaskSchema_parse_def
  find_board_def find_task_def board_workspaceId_def members_where_def find_member_def
  in_column_def board_gate_def task_gate_def assignee_check_def maxPosition_query_def
  allocate_position_def task_create_def board_room_def createTask_read_def
  createTask_write_def createTask_def getTasks_def int32_def
  task_update_def updateData_def updateTask_def deleteTask_def tasksToUpdate_query_def
  move_writes_def transaction_def moveTask_commit_def moveTask_def updateBoard_def
  deleteBoard_def removeUser_def role_of_def column_positions_def

lemma member_key_unique:
  assumes "unique_members st" "m \<in> set (members st)" "m' \<in> set (members st)"
    and "wm_workspaceId m = wm_workspaceId m'" "wm_userId m = wm_userId m'"
  shows "m = m'"
proof -
  have inj: "inj_on (\<lambda>m. (wm_workspaceId m, wm_userId m)) (set (members st))"
    using assms(1) by (simp add: unique_members_def distinct_map)
  have k: "(\<lambda>m. (wm_workspaceId m, wm_userId m)) m = (\<lambda>m. (wm_workspaceId m, wm_userId m)) m'"
    using assms(4,5) by simp
  show ?thesis by (rule inj_onD[OF inj k assms(2) assms(3)])
qed

lemma members_where_role:
  assumes "unique_members st"
  shows "members_where st wid uid roles = []
           \<longleftrightarrow> (case role_of st wid uid of None \<Rightarrow> True | Some r \<Rightarrow> r \<notin> set roles)"
proof (cases "find_member st wid uid")
  case None
  then have "\<forall>m\<in>set (members st). \<not> (wm_workspaceId m = wid \<and> wm_userId m = uid)"
    by (simp add: find_member_def find_None_iff)
  then have "members_where st wid uid roles = []"
    unfolding members_where_def filter_empty_conv by blast
  with None show ?thesis by (simp add: role_of_def)
next
  case (Some m)
  then have m: "m \<in> set (members st)" "wm_workspaceId m = wid" "wm_userId m = uid"
    using find_SomeD[of "\<lambda>m. wm_workspaceId m = wid \<and> wm_userId m = uid" "members st" m]
    by (simp_all add: find_member_def)
  have only: "m' = m"
    if "m' \<in> set (members st)" "wm_workspaceId m' = wid" "wm_userId m' = uid" for m'
    by (rule member_key_unique[OF assms that(1) m(1)]) (simp_all add: that m)
  have "members_where st wid uid roles = [] \<longleftrightarrow> wm_role m \<notin> set roles"
  proof
    assume "members_where st wid uid roles = []"
    then have "\<not> (wm_workspaceId m = wid \<and> wm_userId m = uid \<and> wm_role m \<in> set roles)"
      using m(1) unfolding members_where_def filter_empty_conv by blast
    then show "wm_role m \<notin> set roles" using m by simp
  next
    assume r: "wm_role m \<notin> set roles"
    have "\<not> (wm_workspaceId x = wid \<and> wm_userId x = uid \<and> wm_role x \<in> set roles)"
      if "x \<in> set (members st)" for x
      using only[OF that] r by blast
    then show "members_where st wid uid roles = []"
      unfolding members_where_def filter_empty_conv by blast
  qed
  with Some show ?thesis by (simp add: role_of_def)
qed

lemma board_gate_role:
  assumes "unique_members st" "board_workspaceId st b = Some wid"
  shows "board_gate st uid (Some b) roles =
           (case role_of st wid uid of
              None \<Rightarrow> Inl Forbidden
            | Some r \<Rightarrow> if r \<in> set roles then Inr wid else Inl Forbidden)"
  using members_where_role[OF assms(1), of wid uid roles] assms(2)
  by (simp add: board_gate_def split: option.splits)

lemma find_board_updated:
  "(\<And>x. b_id (f x) = b_id x) \<Longrightarrow>
   find (\<lambda>b. b_id b = i) (map (\<lambda>x. if b_id x = i then f x else x) xs)
     = map_option f (find (\<lambda>b. b_id b = i) xs)"
  by (induction xs) auto

section \<open>Editing a board\<close>

text \<open>
  C5, as stated: a MEMBER who updates the column set of a board or deletes the board
  fails with Forbidden. It fails: the MEMBER of workspace W replaces the three columns
  of the board by one, and deletes the board, and neither request is refused.
\<close>

theorem member_edits_board_counterexample:
  "role_of W ''cworkspc1'' ''cusermem1'' = Some MEMBER
   \<and> succeeds (updateBoard W ''cusermem1'' ''cboard001''
        \<lparr> bb_name = None, bb_columns = Some [a_column ''done'' ''Done''] \<rparr>)
   \<and> map b_columns (boards (fst (updateBoard W ''cusermem1'' ''cboard001''
        \<lparr> bb_name = None, bb_columns = Some [a_column ''done'' ''Done''] \<rparr>)))
       = [[a_column ''done'' ''Done'']]
   \<and> succeeds (deleteBoard W ''cusermem1'' ''cboard001'')
   \<and> boards (fst (deleteBoard W ''cusermem1'' ''cboard001'')) = []"
  by (simp add: eval_defs)

text \<open>
  C5, amended: updateBoard and deleteBoard admit the roles ADMIN and MEMBER alike. A
  caller whose role in the board's workspace is ADMIN or MEMBER succeeds; a VIEWER and
  a user without a membership fail with Forbidden, and the store is left as it was.
\<close>

theorem board_edit_gate:
  assumes "unique_members st"
    and "find_board st i = Some b"
    and "board_workspaceId st b = Some wid"
  shows "(role_of st wid uid \<in> {Some ADMIN, Some MEMBER} \<longrightarrow>
            succeeds (updateBoard st uid i body) \<and> succeeds (deleteBoard st uid i))
       \<and> (role_of st wid uid \<notin> {Some ADMIN, Some MEMBER} \<longrightarrow>
            updateBoard st uid i body = (st, Inl Forbidden)
            \<and> deleteBoard st uid i = (st, Inl Forbidden))"
proof -
  note g = board_gate_role[OF assms(1,3), of uid "[ADMIN, MEMBER]"]
  show ?thesis
  proof (cases "role_of st wid uid")
    case None
    then show ?thesis using g assms(2)
      by (simp add: updateBoard_def deleteBoard_def)
  next
    case (Some r)
    then show ?thesis using g assms(2)
      by (cases r) (simp_all add: updateBoard_def deleteBoard_def succeeds_def Let_def)
  qed
qed

theorem board_edit_gate_witness:
  "unique_members W
   \<and> find_board W ''cboard001'' = Some (hd (boards W))
   \<and> board_workspaceId W (hd (boards W)) = Some ''cworkspc1''
   \<and> role_of W ''cworkspc1'' ''cuseradm1'' \<in> {Some ADMIN, Some MEMBER}
   \<and> succeeds (updateBoard W ''cuseradm1'' ''cboard001'' \<lparr> bb_name = Some ''Sprint'', bb_columns = None \<rparr>)
   \<and> succeeds (deleteBoard W ''cuseradm1'' ''cboard001'')
   \<and> role_of W ''cworkspc1'' ''cuservie1'' \<notin> {Some ADMIN, Some MEMBER}
   \<and> updateBoard W ''cuservie1'' ''cboard001'' \<lparr> bb_name = Some ''Sprint'', bb_columns = None \<rparr>
        = (W, Inl Forbidden)
   \<and> deleteBoard W ''cuservie1'' ''cboard001'' = (W, Inl Forbidden)"
proof -
  have u: "unique_members W" by (simp add: W_simps)
  have f: "find_board W ''cboard001'' = Some (hd (boards W))"
    by (simp add: W_def find_board_def)
  have w: "board_workspaceId W (hd (boards W)) = Some ''cworkspc1''"
    by (simp add: W_def board_workspaceId_def)
  have ra: "role_of W ''cworkspc1'' ''cuseradm1'' = Some ADMIN"
    by (simp add: W_def role_of_def find_member_def)
  have rv: "role_of W ''cworkspc1'' ''cuservie1'' = Some VIEWER"
    by (simp add: W_def role_of_def find_member_def)
  show ?thesis
    using u f w ra rv
      board_edit_gate[OF u f w, of "''cuseradm1''" "\<lparr> bb_name = Some ''Sprint'', bb_columns = None \<rparr>"]
      board_edit_gate[OF u f w, of "''cuservie1''" "\<lparr> bb_name = Some ''Sprint'', bb_columns = None \<rparr>"]
    by simp
qed

text \<open>
  C6, as stated: a column-set update that removes a column which still holds a task is
  rejected and the column set stays as it was. It fails: column todo of the board holds
  a task, the ADMIN sends the column set without todo, and the board is stored with the
  columns doing and done while the task keeps its columnId todo.
\<close>

theorem remove_column_with_task_counterexample:
  "column_positions (W\<lparr>tasks := [a_task ''ctask0001'' ''A'' ''todo'' 0]\<rparr>) ''cboard001'' ''todo'' = [0]
   \<and> succeeds (updateBoard (W\<lparr>tasks := [a_task ''ctask0001'' ''A'' ''todo'' 0]\<rparr>)
        ''cuseradm1'' ''cboard001''
        \<lparr> bb_name = None,
          bb_columns = Some [a_column ''doing'' ''Doing'', a_column ''done'' ''Done''] \<rparr>)
   \<and> map (\<lambda>b. map col_id (b_columns b))
        (boards (fst (updateBoard (W\<lparr>tasks := [a_task ''ctask0001'' ''A'' ''todo'' 0]\<rparr>)
           ''cuseradm1'' ''cboard001''
           \<lparr> bb_name = None,
             bb_columns = Some [a_column ''doing'' ''Doing'', a_column ''done'' ''Done''] \<rparr>)))
       = [[''doing'', ''done'']]
   \<and> map t_columnId
        (tasks (fst (updateBoard (W\<lparr>tasks := [a_task ''ctask0001'' ''A'' ''todo'' 0]\<rparr>)
           ''cuseradm1'' ''cboard001''
           \<lparr> bb_name = None,
             bb_columns = Some [a_column ''doing'' ''Doing'', a_column ''done'' ''Done''] \<rparr>)))
       = [''todo'']"
  by (simp add: eval_defs)

text \<open>
  C6, amended: updateBoard does not look at the tasks. Whether a column-set update
  succeeds does not depend on the tasks of the store; when it succeeds the board's
  column set is the one supplied and every task is kept as it is, so removing a column
  succeeds whether the column is empty or not.
\<close>

theorem updateBoard_replaces_columns:
  assumes "find_board st i = Some b"
  shows "succeeds (updateBoard (st\<lparr>tasks := ts\<rparr>) uid i \<lparr> bb_name = None, bb_columns = Some cs \<rparr>)
           = succeeds (updateBoard st uid i \<lparr> bb_name = None, bb_columns = Some cs \<rparr>)
       \<and> (succeeds (updateBoard st uid i \<lparr> bb_name = None, bb_columns = Some cs \<rparr>) \<longrightarrow>
            find_board (fst (updateBoard st uid i \<lparr> bb_name = None, bb_columns = Some cs \<rparr>)) i
              = Some (b\<lparr>b_columns := cs\<rparr>)
            \<and> tasks (fst (updateBoard st uid i \<lparr> bb_name = None, bb_columns = Some cs \<rparr>))
              = tasks st)"
proof -
  have fb: "find_board (st\<lparr>tasks := ts\<rparr>) i = Some b"
    using assms by (simp add: find_board_def)
  have "\<And>wid. members_where (st\<lparr>tasks := ts\<rparr>) wid uid [ADMIN, MEMBER]
            = members_where st wid uid [ADMIN, MEMBER]"
    by (simp add: members_where_def)
  moreover have "board_workspaceId (st\<lparr>tasks := ts\<rparr>) b = board_workspaceId st b"
    by (simp add: board_workspaceId_def)
  ultimately have g: "board_gate (st\<lparr>tasks := ts\<rparr>) uid (Some b) [ADMIN, MEMBER]
             = board_gate st uid (Some b) [ADMIN, MEMBER]"
    by (simp add: board_gate_def split: option.splits)
  have 1: "succeeds (updateBoard (st\<lparr>tasks := ts\<rparr>) uid i \<lparr> bb_name = None, bb_columns = Some cs \<rparr>)
           = succeeds (updateBoard st uid i \<lparr> bb_name = None, bb_columns = Some cs \<rparr>)"
    using assms fb g by (simp add: updateBoard_def succeeds_def Let_def split: sum.splits)
  have 2: "find_board (fst (updateBoard st uid i \<lparr> bb_name = None, bb_columns = Some cs \<rparr>)) i
              = Some (b\<lparr>b_columns := cs\<rparr>)
            \<and> tasks (fst (updateBoard st uid i \<lparr> bb_name = None, bb_columns = Some cs \<rparr>))
              = tasks st"
    if "succeeds (updateBoard st uid i \<lparr> bb_name = None, bb_columns = Some cs \<rparr>)"
  proof -
    from that assms have fst: "fst (updateBoard st uid i \<lparr> bb_name = None, bb_columns = Some cs \<rparr>)
        = st\<lparr>boards := map (\<lambda>x. if b_id x = i then x\<lparr>b_columns := cs\<rparr> else x) (boards st)\<rparr>"
      by (simp add: updateBoard_def succeeds_def Let_def split: sum.splits)
    show ?thesis
      using assms unfolding fst find_board_def
      by (simp add: find_board_updated[of "\<lambda>x. x\<lparr>b_columns := cs\<rparr>"])
  qed
  from 1 2 show ?thesis by blast
qed

theorem updateBoard_replaces_columns_witness:
  "find_board W ''cboard001'' = Some (hd (boards W))
   \<and> succeeds (updateBoard (W\<lparr>tasks := [a_task ''ctask0001'' ''A'' ''todo'' 0]\<rparr>) ''cuseradm1''
        ''cboard001'' \<lparr> bb_name = None, bb_columns = Some [a_column ''done'' ''Done''] \<rparr>)
   \<and> succeeds (updateBoard W ''cuseradm1'' ''cboard001''
        \<lparr> bb_name = None, bb_columns = Some [a_column ''done'' ''Done''] \<rparr>)
   \<and> find_board (fst (updateBoard W ''cuseradm1'' ''cboard001''
        \<lparr> bb_name = None, bb_columns = Some [a_column ''done'' ''Done''] \<rparr>)) ''cboard001''
       = Some ((hd (boards W))\<lparr>b_columns := [a_column ''done'' ''Done'']\<rparr>)
   \<and> tasks (fst (updateBoard W ''cuseradm1'' ''cboard001''
        \<lparr> bb_name = None, bb_columns = Some [a_column ''done'' ''Done''] \<rparr>)) = tasks W"
proof -
  have f: "find_board W ''cboard001'' = Some (hd (boards W))"
    by (simp add: W_def find_board_def)
  have s: "succeeds (updateBoard W ''cuseradm1'' ''cboard001''
        \<lparr> bb_name = None, bb_columns = Some [a_column ''done'' ''Done''] \<rparr>)"
    by (simp add: eval_defs)
  show ?thesis
    using f s updateBoard_replaces_columns[OF f,
        of "[a_task ''ctask0001'' ''A'' ''todo'' 0]" "''cuseradm1''" "[a_column ''done'' ''Done'']"]
    by simp
qed


section \<open>createTask\<close>

lemma parse_fields:
  "taskSchema_parse Z body = Inr v \<Longrightarrow>
     ti_boardId v = tb_boardId body \<and> ti_columnId v = tb_columnId body
     \<and> ti_assignedTo v = tb_assignedTo body
     \<and> ti_position v = (case tb_position body of None \<Rightarrow> 0 | Some p \<Rightarrow> p)
     \<and> 0 \<le> ti_position v \<and> tb_columnId body \<noteq> []"
  by (cases "tb_position body")
     (auto simp: taskSchema_parse_def opt_ok_def split: if_splits)

lemma createTask_cases:
  "tasks (fst (createTask Z st uid n body)) = tasks st
   \<or> (\<exists>t. tasks (fst (createTask Z st uid n body)) = tasks st @ [t]
          \<and> t_id t = n \<and> n \<notin> t_id ` set (tasks st)
          \<and> t_boardId t = tb_boardId body \<and> t_columnId t = tb_columnId body
          \<and> t_position t =
              allocate_position (case tb_position body of None \<Rightarrow> 0 | Some p \<Rightarrow> p)
                (maxPosition_query st (tb_boardId body) (tb_columnId body))
          \<and> opt_ok (\<lambda>p. 0 \<le> p) (tb_position body))"
proof (cases "taskSchema_parse Z body")
  case (Inl e)
  then show ?thesis by (simp add: createTask_def createTask_read_def)
next
  case (Inr v)
  note f = parse_fields[OF Inr]
  have ok: "opt_ok (\<lambda>p. 0 \<le> p) (tb_position body)"
    using Inr by (simp add: taskSchema_parse_def split: if_splits)
  show ?thesis
    using Inr f ok
    by (simp add: createTask_def createTask_read_def createTask_write_def task_create_def
        Let_def split: sum.splits)
qed

text \<open>
  C7, as stated: createTask with a columnId that is not in the board's column set fails
  with ValidationFailed and creates no task. It fails: the board of workspace W has the
  columns todo, doing and done, a MEMBER asks for column nowhere, and the task is
  created in it.
\<close>

theorem createTask_unknown_column_counterexample:
  "map (\<lambda>b. map col_id (b_columns b)) (boards W) = [[''todo'', ''doing'', ''done'']]
   \<and> succeeds (createTask zod3 W ''cusermem1'' ''ctask0001'' (new_task ''A'' ''nowhere'' None))
   \<and> map t_columnId
        (tasks (fst (createTask zod3 W ''cusermem1'' ''ctask0001'' (new_task ''A'' ''nowhere'' None))))
       = [''nowhere'']"
  by (simp add: eval_defs Let_def)

text \<open>
  C7, amended: of the columnId createTask checks only that it is not the empty string.
  An empty columnId fails with ValidationFailed and nothing is created. Any other
  columnId is accepted without a look at the board's column set: when the request
  passes the schema, the caller is ADMIN or MEMBER of the board's workspace, the
  assignee (if any) is a member, the generated identifier is new and the position the
  handler allocates fits the 32-bit column, the task is created with the columnId of
  the request.
\<close>

theorem createTask_column_unchecked:
  "(tb_columnId body = [] \<longrightarrow> createTask Z st uid n body = (st, Inl ValidationFailed))
   \<and> (taskSchema_parse Z body = Inr v
        \<and> board_gate st uid (find_board st (tb_boardId body)) [ADMIN, MEMBER] = Inr wid
        \<and> assignee_check st wid (tb_assignedTo body)
        \<and> n \<notin> set (map t_id (tasks st))
        \<and> int32 (allocate_position (ti_position v)
                   (maxPosition_query st (tb_boardId body) (tb_columnId body)))
      \<longrightarrow> succeeds (createTask Z st uid n body)
          \<and> (\<exists>t. tasks (fst (createTask Z st uid n body)) = tasks st @ [t]
                 \<and> t_columnId t = tb_columnId body))"
proof (intro conjI impI)
  assume "tb_columnId body = []"
  then show "createTask Z st uid n body = (st, Inl ValidationFailed)"
    by (simp add: createTask_def createTask_read_def taskSchema_parse_def)
next
  assume a: "taskSchema_parse Z body = Inr v
        \<and> board_gate st uid (find_board st (tb_boardId body)) [ADMIN, MEMBER] = Inr wid
        \<and> assignee_check st wid (tb_assignedTo body)
        \<and> n \<notin> set (map t_id (tasks st))
        \<and> int32 (allocate_position (ti_position v)
                   (maxPosition_query st (tb_boardId body) (tb_columnId body)))"
  then have p: "taskSchema_parse Z body = Inr v" by simp
  note f = parse_fields[OF p]
  from a f show "succeeds (createTask Z st uid n body)"
    by (simp add: createTask_def createTask_read_def createTask_write_def task_create_def
        Let_def succeeds_def)
  from a f show "\<exists>t. tasks (fst (createTask Z st uid n body)) = tasks st @ [t]
                 \<and> t_columnId t = tb_columnId body"
    by (simp add: createTask_def createTask_read_def createTask_write_def task_create_def
        Let_def)
qed

theorem createTask_column_unchecked_witness:
  "tb_columnId (new_task ''A'' [] None) = []
   \<and> createTask zod3 W ''cusermem1'' ''ctask0001'' (new_task ''A'' [] None)
       = (W, Inl ValidationFailed)
   \<and> (\<exists>v. taskSchema_parse zod3 (new_task ''A'' ''nowhere'' None) = Inr v)
   \<and> board_gate W ''cusermem1'' (find_board W (tb_boardId (new_task ''A'' ''nowhere'' None)))
        [ADMIN, MEMBER] = Inr ''cworkspc1''
   \<and> assignee_check W ''cworkspc1'' (tb_assignedTo (new_task ''A'' ''nowhere'' None))
   \<and> ''ctask0001'' \<notin> set (map t_id (tasks W))
   \<and> int32 (allocate_position 0 (maxPosition_query W ''cboard001'' ''nowhere''))
   \<and> succeeds (createTask zod3 W ''cusermem1'' ''ctask0001'' (new_task ''A'' ''nowhere'' None))
   \<and> (\<exists>t. tasks (fst (createTask zod3 W ''cusermem1'' ''ctask0001''
                          (new_task ''A'' ''nowhere'' None))) = tasks W @ [t]
          \<and> t_columnId t = ''nowhere'')"
proof -
  obtain v where p: "taskSchema_parse zod3 (new_task ''A'' ''nowhere'' None) = Inr v"
    by (simp add: taskSchema_parse_def new_task_def zod3_def cuid_format_def opt_ok_def)
  have g: "board_gate W ''cusermem1'' (find_board W (tb_boardId (new_task ''A'' ''nowhere'' None)))
        [ADMIN, MEMBER] = Inr ''cworkspc1''"
    by (simp add: eval_defs Let_def)
  have a: "assignee_check W ''cworkspc1'' (tb_assignedTo (new_task ''A'' ''nowhere'' None))"
    by (simp add: assignee_check_def new_task_def)
  have n: "''ctask0001'' \<notin> set (map t_id (tasks W))" by (simp add: W_simps)
  have e: "tb_columnId (new_task ''A'' [] None) = []" by (simp add: new_task_def)
  have c: "tb_columnId (new_task ''A'' ''nowhere'' None) = ''nowhere''"
    "tb_boardId (new_task ''A'' ''nowhere'' None) = ''cboard001''"
    by (simp_all add: new_task_def)
  have v: "ti_position v = 0"
    using parse_fields[OF p] by (simp add: new_task_def)
  have r: "int32 (allocate_position 0 (maxPosition_query W ''cboard001'' ''nowhere''))"
    by (simp add: allocate_position_def maxPosition_query_def W_simps int32_def)
  show ?thesis
    using p g a n e c v r
      createTask_column_unchecked[of "new_task ''A'' [] None" zod3 W "''cusermem1''" "''ctask0001''"]
      createTask_column_unchecked[of "new_task ''A'' ''nowhere'' None" zod3 W "''cusermem1''"
        "''ctask0001''" v "''cworkspc1''"]
    by simp
qed

text \<open>
  C9 at the input where the code leaves it: column todo holds one task, at position 0,
  and a MEMBER creates a task in it with the explicit position 0. The validated
  position 0 counts as absent in \<open>position || ...\<close>, and the task is stored at
  position 1, after the existing one.
\<close>

theorem createTask_explicit_zero:
  "column_positions (W\<lparr>tasks := [a_task ''ctask0001'' ''A'' ''todo'' 0]\<rparr>) ''cboard001'' ''todo'' = [0]
   \<and> tb_position (new_task ''B'' ''todo'' (Some 0)) = Some 0
   \<and> succeeds (createTask zod3 (W\<lparr>tasks := [a_task ''ctask0001'' ''A'' ''todo'' 0]\<rparr>)
        ''cusermem1'' ''ctask0002'' (new_task ''B'' ''todo'' (Some 0)))
   \<and> map (\<lambda>t. (t_id t, t_position t))
        (tasks (fst (createTask zod3 (W\<lparr>tasks := [a_task ''ctask0001'' ''A'' ''todo'' 0]\<rparr>)
           ''cusermem1'' ''ctask0002'' (new_task ''B'' ''todo'' (Some 0)))))
       = [(''ctask0001'', 0), (''ctask0002'', 1)]"
  by (simp add: eval_defs Let_def)

lemma createTask_position_overflow:
  "createTask zod3 W ''cusermem1'' ''ctask0001'' (new_task ''A'' ''todo'' (Some 2147483648))
     = (W, Inl InternalError)"
  by (simp add: eval_defs Let_def)


section \<open>moveTask\<close>



text \<open>
  C2, as stated: a move to the column and position the task already has writes no
  position and emits no event. It fails: column todo holds A at position 0 and B at
  position 1; a MEMBER moves A to column todo, position 0; B is written to position 2
  and the taskMoved event is emitted.
\<close>

theorem moveTask_same_place_counterexample:
  "moveTask (W\<lparr>tasks := [a_task ''ctask0001'' ''A'' ''todo'' 0, a_task ''ctask0002'' ''B'' ''todo'' 1]\<rparr>)
     ''cusermem1'' ''ctask0001'' \<lparr> mb_columnId = ''todo'', mb_position = 0 \<rparr>
   = (W\<lparr>tasks := [a_task ''ctask0001'' ''A'' ''todo'' 0, a_task ''ctask0002'' ''B'' ''todo'' 2]\<rparr>,
      Inr (RTaskOpt (Some (a_task ''ctask0001'' ''A'' ''todo'' 0)),
           [\<lparr> e_room = ''board-cboard001'', e_event = ''taskMoved'',
              e_payload = PTaskOpt (Some (a_task ''ctask0001'' ''A'' ''todo'' 0)) \<rparr>]))"
  by (simp add: eval_defs Let_def)

text \<open>
  C2, amended: a committed move of a task to the column and position it already has
  returns the task with all its fields as they were, but it is no no-op: every other
  task of that column at the same or a later position is written one position up, and
  the taskMoved event is emitted once, as for any other move.
\<close>

theorem moveTask_same_place:
  assumes "unique_task_ids st"
    and "find_task st i = Some t"
    and "succeeds (moveTask st uid i \<lparr> mb_columnId = t_columnId t, mb_position = t_position t \<rparr>)"
  shows "moveTask st uid i \<lparr> mb_columnId = t_columnId t, mb_position = t_position t \<rparr>
     = (st\<lparr>tasks := map (\<lambda>u. if t_id u \<noteq> i \<and> in_column (t_boardId t) (t_columnId t) u
                                   \<and> t_position t \<le> t_position u
                                then u\<lparr>t_position := t_position u + 1\<rparr> else u) (tasks st)\<rparr>,
        Inr (RTaskOpt (Some t),
             [\<lparr> e_room = board_room (t_boardId t), e_event = ''taskMoved'',
                e_payload = PTaskOpt (Some t) \<rparr>]))"
proof -
  let ?body = "\<lparr> mb_columnId = t_columnId t, mb_position = t_position t \<rparr>"
  from assms(2,3) obtain wid where
    g: "task_gate st uid (find_task st i) [ADMIN, MEMBER] = Inr (t, wid)"
    by (auto simp: moveTask_def succeeds_def task_gate_def split: sum.splits option.splits)
  from assms(2) have ti: "t \<in> set (tasks st)" "t_id t = i" using find_task_Some by auto
  have same: "moved t ?body t = t" by (simp add: moved_def)
  have "moved t ?body u = (if t_id u \<noteq> i \<and> in_column (t_boardId t) (t_columnId t) u
                                   \<and> t_position t \<le> t_position u
                                then u\<lparr>t_position := t_position u + 1\<rparr> else u)"
    if "u \<in> set (tasks st)" for u
  proof (cases "t_id u = i")
    case True
    then have "u = t" using unique_ids_eq[OF assms(1) ti(1) that] ti(2) by simp
    then show ?thesis using same ti(2) by simp
  next
    case False
    then show ?thesis using ti(2) by (simp add: moved_def)
  qed
  then have "map (moved t ?body) (tasks st)
      = map (\<lambda>u. if t_id u \<noteq> i \<and> in_column (t_boardId t) (t_columnId t) u
                                   \<and> t_position t \<le> t_position u
                                then u\<lparr>t_position := t_position u + 1\<rparr> else u) (tasks st)"
    by simp
  moreover have "writes_fit st t ?body"
    using assms(3) moveTask_outcome[OF assms(1) g, of ?body]
    by (cases "writes_fit st t ?body") (simp_all add: succeeds_def)
  ultimately show ?thesis
    using moveTask_outcome[OF assms(1) g, of ?body] same by simp
qed

theorem moveTask_same_place_witness:
  "unique_task_ids (W\<lparr>tasks := [a_task ''ctask0001'' ''A'' ''todo'' 0, a_task ''ctask0002'' ''B'' ''doing'' 0]\<rparr>)
   \<and> find_task (W\<lparr>tasks := [a_task ''ctask0001'' ''A'' ''todo'' 0, a_task ''ctask0002'' ''B'' ''doing'' 0]\<rparr>)
       ''ctask0001'' = Some (a_task ''ctask0001'' ''A'' ''todo'' 0)
   \<and> succeeds (moveTask (W\<lparr>tasks := [a_task ''ctask0001'' ''A'' ''todo'' 0, a_task ''ctask0002'' ''B'' ''doing'' 0]\<rparr>)
       ''cusermem1'' ''ctask0001'' \<lparr> mb_columnId = ''todo'', mb_position = 0 \<rparr>)
   \<and> moveTask (W\<lparr>tasks := [a_task ''ctask0001'' ''A'' ''todo'' 0, a_task ''ctask0002'' ''B'' ''doing'' 0]\<rparr>)
       ''cusermem1'' ''ctask0001'' \<lparr> mb_columnId = ''todo'', mb_position = 0 \<rparr>
     = (W\<lparr>tasks := [a_task ''ctask0001'' ''A'' ''todo'' 0, a_task ''ctask0002'' ''B'' ''doing'' 0]\<rparr>,
        Inr (RTaskOpt (Some (a_task ''ctask0001'' ''A'' ''todo'' 0)),
             [\<lparr> e_room = ''board-cboard001'', e_event = ''taskMoved'',
                e_payload = PTaskOpt (Some (a_task ''ctask0001'' ''A'' ''todo'' 0)) \<rparr>]))"
proof -
  let ?S = "W\<lparr>tasks := [a_task ''ctask0001'' ''A'' ''todo'' 0, a_task ''ctask0002'' ''B'' ''doing'' 0]\<rparr>"
  have u: "unique_task_ids ?S" by (simp add: unique_task_ids_def a_task_def)
  have f: "find_task ?S ''ctask0001'' = Some (a_task ''ctask0001'' ''A'' ''todo'' 0)"
    by (simp add: find_task_def a_task_def)
  have c: "t_columnId (a_task ''ctask0001'' ''A'' ''todo'' 0) = ''todo''"
    "t_position (a_task ''ctask0001'' ''A'' ''todo'' 0) = 0"
    "t_boardId (a_task ''ctask0001'' ''A'' ''todo'' 0) = ''cboard001''"
    by (simp_all add: a_task_def)
  have s: "succeeds (moveTask ?S ''cusermem1'' ''ctask0001''
             \<lparr> mb_columnId = t_columnId (a_task ''ctask0001'' ''A'' ''todo'' 0),
               mb_position = t_position (a_task ''ctask0001'' ''A'' ''todo'' 0) \<rparr>)"
    unfolding c by (simp add: eval_defs Let_def)
  have r: "board_room ''cboard001'' = ''board-cboard001''" by (simp add: board_room_def)
  show ?thesis
    using u f s moveTask_same_place[OF u f s]
    by (simp add: c r a_task_def in_column_def)
qed


section \<open>What a VIEWER may do\<close>

text \<open>
  C4, as stated: every createTask, moveTask or deleteTask call of a VIEWER on a board of
  the workspace fails with Forbidden. It fails for createTask: the body is validated
  before the role is looked up, so a VIEWER who sends an empty title is answered
  ValidationFailed.
\<close>

theorem viewer_create_invalid_counterexample:
  "role_of W ''cworkspc1'' ''cuservie1'' = Some VIEWER
   \<and> map b_id (boards W) = [''cboard001'']
   \<and> createTask zod3 W ''cuservie1'' ''ctask0001'' (new_task [] ''todo'' None)
       = (W, Inl ValidationFailed)"
  by (simp add: eval_defs)

text \<open>
  C4, amended: for a VIEWER of the board's workspace, moveTask and deleteTask on a task
  of the board fail with Forbidden, and so does createTask on the board when its body
  passes the schema; a createTask whose body does not pass it fails with
  ValidationFailed. In each case the store is left as it was. getTasks on the board
  succeeds and returns the board's tasks in the order of their positions.
\<close>

theorem viewer_gate:
  assumes "unique_members st"
    and "find_board st bid = Some b"
    and "board_workspaceId st b = Some wid"
    and "role_of st wid uid = Some VIEWER"
  shows "(taskSchema_parse Z body = Inr v \<and> tb_boardId body = bid \<longrightarrow>
            createTask Z st uid n body = (st, Inl Forbidden))
       \<and> (taskSchema_parse Z body = Inl e \<longrightarrow>
            createTask Z st uid n body = (st, Inl ValidationFailed))
       \<and> (find_task st i = Some t \<and> t_boardId t = bid \<longrightarrow>
            moveTask st uid i mb = (st, Inl Forbidden)
            \<and> deleteTask st uid i = (st, Inl Forbidden))
       \<and> getTasks st uid bid =
            (st, Inr (RTasks (sort_key t_position (filter (\<lambda>t. t_boardId t = bid) (tasks st))),
                      []))"
proof -
  have w: "board_gate st uid (Some b) [ADMIN, MEMBER] = Inl Forbidden"
    using board_gate_role[OF assms(1,3), of uid "[ADMIN, MEMBER]"] assms(4) by simp
  have r: "board_gate st uid (Some b) [ADMIN, MEMBER, VIEWER] = Inr wid"
    using board_gate_role[OF assms(1,3), of uid "[ADMIN, MEMBER, VIEWER]"] assms(4) by simp
  have c1: "createTask Z st uid n body = (st, Inl Forbidden)"
    if "taskSchema_parse Z body = Inr v \<and> tb_boardId body = bid"
    using that parse_fields[of Z body v] w assms(2) by (simp add: createTask_def createTask_read_def)
  have c2: "createTask Z st uid n body = (st, Inl ValidationFailed)"
    if "taskSchema_parse Z body = Inl e"
    using that by (simp add: createTask_def createTask_read_def taskSchema_parse_def split: if_splits)
  have g: "task_gate st uid (find_task st i) [ADMIN, MEMBER] = Inl Forbidden"
    if "find_task st i = Some t \<and> t_boardId t = bid"
    using that w assms(2) by (simp add: task_gate_def)
  have m: "moveTask st uid i mb = (st, Inl Forbidden) \<and> deleteTask st uid i = (st, Inl Forbidden)"
    if "find_task st i = Some t \<and> t_boardId t = bid"
    using g[OF that] by (simp add: moveTask_def deleteTask_def)
  have q: "getTasks st uid bid =
            (st, Inr (RTasks (sort_key t_position (filter (\<lambda>t. t_boardId t = bid) (tasks st))),
                      []))"
    using r assms(2) by (simp add: getTasks_def)
  from c1 c2 m q show ?thesis by blast
qed

theorem viewer_gate_witness:
  "unique_members (W\<lparr>tasks := [a_task ''ctask0001'' ''A'' ''todo'' 0]\<rparr>)
   \<and> find_board (W\<lparr>tasks := [a_task ''ctask0001'' ''A'' ''todo'' 0]\<rparr>) ''cboard001''
       = Some (hd (boards W))
   \<and> board_workspaceId (W\<lparr>tasks := [a_task ''ctask0001'' ''A'' ''todo'' 0]\<rparr>) (hd (boards W))
       = Some ''cworkspc1''
   \<and> role_of (W\<lparr>tasks := [a_task ''ctask0001'' ''A'' ''todo'' 0]\<rparr>) ''cworkspc1'' ''cuservie1''
       = Some VIEWER
   \<and> (\<exists>v. taskSchema_parse zod3 (new_task ''B'' ''todo'' None) = Inr v)
   \<and> tb_boardId (new_task ''B'' ''todo'' None) = ''cboard001''
   \<and> createTask zod3 (W\<lparr>tasks := [a_task ''ctask0001'' ''A'' ''todo'' 0]\<rparr>) ''cuservie1''
        ''ctask0002'' (new_task ''B'' ''todo'' None)
       = (W\<lparr>tasks := [a_task ''ctask0001'' ''A'' ''todo'' 0]\<rparr>, Inl Forbidden)
   \<and> taskSchema_parse zod3 (new_task [] ''todo'' None) = Inl ValidationFailed
   \<and> createTask zod3 (W\<lparr>tasks := [a_task ''ctask0001'' ''A'' ''todo'' 0]\<rparr>) ''cuservie1''
        ''ctask0002'' (new_task [] ''todo'' None)
       = (W\<lparr>tasks := [a_task ''ctask0001'' ''A'' ''todo'' 0]\<rparr>, Inl ValidationFailed)
   \<and> find_task (W\<lparr>tasks := [a_task ''ctask0001'' ''A'' ''todo'' 0]\<rparr>) ''ctask0001''
       = Some (a_task ''ctask0001'' ''A'' ''todo'' 0)
   \<and> t_boardId (a_task ''ctask0001'' ''A'' ''todo'' 0) = ''cboard001''
   \<and> moveTask (W\<lparr>tasks := [a_task ''ctask0001'' ''A'' ''todo'' 0]\<rparr>) ''cuservie1'' ''ctask0001''
        \<lparr> mb_columnId = ''done'', mb_position = 0 \<rparr>
       = (W\<lparr>tasks := [a_task ''ctask0001'' ''A'' ''todo'' 0]\<rparr>, Inl Forbidden)
   \<and> deleteTask (W\<lparr>tasks := [a_task ''ctask0001'' ''A'' ''todo'' 0]\<rparr>) ''cuservie1'' ''ctask0001''
       = (W\<lparr>tasks := [a_task ''ctask0001'' ''A'' ''todo'' 0]\<rparr>, Inl Forbidden)
   \<and> getTasks (W\<lparr>tasks := [a_task ''ctask0001'' ''A'' ''todo'' 0]\<rparr>) ''cuservie1'' ''cboard001''
       = (W\<lparr>tasks := [a_task ''ctask0001'' ''A'' ''todo'' 0]\<rparr>,
          Inr (RTasks [a_task ''ctask0001'' ''A'' ''todo'' 0], []))"
proof -
  let ?S = "W\<lparr>tasks := [a_task ''ctask0001'' ''A'' ''todo'' 0]\<rparr>"
  have u: "unique_members ?S" using W_simps(3) by (simp add: unique_members_def)
  have f: "find_board ?S ''cboard001'' = Some (hd (boards W))"
    by (simp add: W_def find_board_def)
  have w: "board_workspaceId ?S (hd (boards W)) = Some ''cworkspc1''"
    by (simp add: W_def board_workspaceId_def)
  have r: "role_of ?S ''cworkspc1'' ''cuservie1'' = Some VIEWER"
    by (simp add: W_def role_of_def find_member_def)
  obtain v where p: "taskSchema_parse zod3 (new_task ''B'' ''todo'' None) = Inr v"
    by (simp add: taskSchema_parse_def new_task_def zod3_def cuid_format_def opt_ok_def)
  have pb: "tb_boardId (new_task ''B'' ''todo'' None) = ''cboard001''"
    by (simp add: new_task_def)
  have q: "taskSchema_parse zod3 (new_task [] ''todo'' None) = Inl ValidationFailed"
    by (simp add: taskSchema_parse_def new_task_def)
  have t: "find_task ?S ''ctask0001'' = Some (a_task ''ctask0001'' ''A'' ''todo'' 0)"
    by (simp add: find_task_def a_task_def)
  have tb: "t_boardId (a_task ''ctask0001'' ''A'' ''todo'' 0) = ''cboard001''"
    by (simp add: a_task_def)
  have l: "sort_key t_position (filter (\<lambda>t. t_boardId t = ''cboard001'') (tasks ?S))
             = [a_task ''ctask0001'' ''A'' ''todo'' 0]"
    by (simp add: a_task_def)
  show ?thesis
    using u f w r p pb q t tb l
      viewer_gate[OF u f w r, where Z = zod3 and body = "new_task ''B'' ''todo'' None" and v = v
        and n = "''ctask0002''" and i = "''ctask0001''"
        and t = "a_task ''ctask0001'' ''A'' ''todo'' 0"
        and mb = "\<lparr> mb_columnId = ''done'', mb_position = 0 \<rparr>"]
      viewer_gate[OF u f w r, where Z = zod3 and body = "new_task [] ''todo'' None"
        and e = ValidationFailed and n = "''ctask0002''"]
    by simp
qed


section \<open>Board rooms\<close>

lemma all_roles: "r \<in> set [ADMIN, MEMBER, VIEWER]"
  by (cases r) simp_all

lemma members_where_any:
  "members_where st wid uid [ADMIN, MEMBER, VIEWER] = [] \<longleftrightarrow> find_member st wid uid = None"
  unfolding members_where_def find_member_def filter_empty_conv find_None_iff
  using all_roles by blast

lemma board_gate_member:
  "is_board_member st b uid \<longleftrightarrow>
     (\<exists>wid. board_gate st uid (find_board st b) [ADMIN, MEMBER, VIEWER] = Inr wid)"
  using members_where_any[of st _ uid]
  by (simp add: is_board_member_def board_gate_def split: option.splits)

lemma join_board_member:
  "is_board_member st b (s_user sock) \<Longrightarrow>
     fst (join_board st rs sock b) = rs(board_room b := insert sock (rs (board_room b)))"
  by (auto simp: board_gate_member join_board_def)

lemma join_board_refused:
  "\<not> is_board_member st b (s_user sock) \<Longrightarrow>
     fst (join_board st rs sock b) = rs
     \<and> (\<exists>msg. snd (join_board st rs sock b)
            = [\<lparr> se_target = ToSocket sock, se_event = ''error'', se_data = SMessage msg \<rparr>])"
  by (simp add: board_gate_member join_board_def split: sum.splits error.splits)

lemma board_room_inj: "board_room b = board_room b' \<longleftrightarrow> b = b'"
  by (simp add: board_room_def)

lemma workspace_room_not_board:
  "workspace_room w \<noteq> board_room b" "board_room b \<noteq> workspace_room w"
  by (simp_all add: workspace_room_def board_room_def)

lemma socket_step:
  assumes "socket_event e"
    and "\<And>b sock. sock \<in> rs (board_room b) \<Longrightarrow> is_board_member st b (s_user sock)"
  shows "fst (step (st, rs) e) = st
       \<and> (\<forall>b sock. sock \<in> snd (step (st, rs) e) (board_room b) \<longrightarrow>
                     is_board_member st b (s_user sock))"
proof (cases e)
  case (JoinBoard s b')
  show ?thesis
  proof (cases "is_board_member st b' (s_user s)")
    case True
    then show ?thesis using JoinBoard assms(2)
      by (simp add: join_board_member board_room_inj)
  next
    case False
    then show ?thesis using JoinBoard assms(2)
      by (simp add: join_board_refused)
  qed
next
  case (LeaveBoard s b')
  then show ?thesis using assms(2) by (simp add: leave_board_def board_room_inj)
next
  case (JoinWorkspace s w)
  then show ?thesis using assms(2)
    by (simp add: join_workspace_def workspace_room_not_board split: option.splits)
next
  case (LeaveWorkspace s w)
  then show ?thesis using assms(2)
    by (simp add: leave_workspace_def workspace_room_not_board)
next
  case (RemoveUser c w u)
  then show ?thesis using assms(1) by simp
qed

lemma socket_steps:
  assumes "\<forall>e\<in>set es. socket_event e"
    and "\<And>b sock. sock \<in> rs (board_room b) \<Longrightarrow> is_board_member st b (s_user sock)"
  shows "fst (steps (st, rs) es) = st
       \<and> (\<forall>b sock. sock \<in> snd (steps (st, rs) es) (board_room b) \<longrightarrow>
                     is_board_member st b (s_user sock))"
  using assms
proof (induction es arbitrary: rs)
  case Nil
  then show ?case by (simp add: steps_def)
next
  case (Cons e es)
  have e: "socket_event e" using Cons.prems(1) by simp
  have one: "fst (step (st, rs) e) = st
       \<and> (\<forall>b sock. sock \<in> snd (step (st, rs) e) (board_room b) \<longrightarrow>
                     is_board_member st b (s_user sock))"
    by (rule socket_step[OF e]) (rule Cons.prems(2))
  define rs' where "rs' = snd (step (st, rs) e)"
  have s: "step (st, rs) e = (st, rs')"
    using one unfolding rs'_def by (metis prod.collapse)
  have inv: "\<And>b sock. sock \<in> rs' (board_room b) \<Longrightarrow> is_board_member st b (s_user sock)"
    using one unfolding rs'_def by blast
  have "\<forall>e\<in>set es. socket_event e" using Cons.prems(1) by simp
  from Cons.IH[OF this inv] s show ?case by (simp add: steps_def)
qed

text \<open>
  C10, as stated, ends: hence every recipient of a board's events is a member of the
  board's workspace. That part fails: the MEMBER joins the room of the board, an ADMIN
  removes the MEMBER from the workspace, and the socket is still in the room, so the
  next event of the board reaches a user who is no member.
\<close>

theorem removed_member_receives_counterexample:
  "member_socket \<in> recipients
       (snd (steps (W, \<lambda>_. {})
          [JoinBoard member_socket ''cboard001'',
           RemoveUser ''cuseradm1'' ''cworkspc1'' ''cusermem1'']))
       \<lparr> e_room = board_room ''cboard001'', e_event = ''taskCreated'',
         e_payload = PTask (a_task ''ctask0001'' ''A'' ''todo'' 0) \<rparr>
   \<and> \<not> is_board_member
       (fst (steps (W, \<lambda>_. {})
          [JoinBoard member_socket ''cboard001'',
           RemoveUser ''cuseradm1'' ''cworkspc1'' ''cusermem1'']))
       ''cboard001'' (s_user member_socket)"
  by (simp add: steps_def recipients_def join_board_def is_board_member_def eval_defs)

text \<open>
  C10, amended: a join-board request adds the socket to the room of the board exactly
  when the board exists and the socket's user has a membership row in the board's
  workspace at that moment; otherwise the handler emits one error event to the
  requesting socket and the rooms are unchanged. Hence, over any sequence of join and
  leave requests during which no membership is removed, every socket in a board's room
  belongs to a member of the board's workspace; removing a member does not take the
  member's sockets out of the rooms.
\<close>

theorem join_board_gate:
  "(is_board_member st b (s_user sock) \<longrightarrow>
      fst (join_board st rs sock b) = rs(board_room b := insert sock (rs (board_room b))))
   \<and> (\<not> is_board_member st b (s_user sock) \<longrightarrow>
      fst (join_board st rs sock b) = rs
      \<and> (\<exists>msg. snd (join_board st rs sock b)
             = [\<lparr> se_target = ToSocket sock, se_event = ''error'', se_data = SMessage msg \<rparr>]))
   \<and> ((\<forall>e\<in>set es. socket_event e) \<and> s \<in> snd (steps (st, \<lambda>_. {}) es) (board_room b') \<longrightarrow>
      is_board_member st b' (s_user s))"
  using join_board_member[of st b sock rs] join_board_refused[of st b sock rs]
    socket_steps[of es "\<lambda>_. {}" st]
  by simp

theorem join_board_gate_witness:
  "is_board_member W ''cboard001'' (s_user member_socket)
   \<and> fst (join_board W (\<lambda>_. {}) member_socket ''cboard001'')
       = (\<lambda>_. {})(board_room ''cboard001'' := {member_socket})
   \<and> \<not> is_board_member W ''cboard009'' (s_user member_socket)
   \<and> fst (join_board W (\<lambda>_. {}) member_socket ''cboard009'') = (\<lambda>_. {})
   \<and> (\<exists>msg. snd (join_board W (\<lambda>_. {}) member_socket ''cboard009'')
          = [\<lparr> se_target = ToSocket member_socket, se_event = ''error'',
               se_data = SMessage msg \<rparr>])
   \<and> socket_event (JoinBoard member_socket ''cboard001'')
   \<and> socket_event (JoinWorkspace member_socket ''cworkspc1'')
   \<and> member_socket
       \<in> snd (steps (W, \<lambda>_. {})
                [JoinBoard member_socket ''cboard001'', JoinWorkspace member_socket ''cworkspc1''])
           (board_room ''cboard001'')"
proof -
  have m: "is_board_member W ''cboard001'' (s_user member_socket)"
    by (simp add: is_board_member_def eval_defs)
  have n: "\<not> is_board_member W ''cboard009'' (s_user member_socket)"
    by (simp add: is_board_member_def eval_defs)
  have e: "\<forall>e\<in>set [JoinBoard member_socket ''cboard001'', JoinWorkspace member_socket ''cworkspc1''].
         socket_event e"
    by simp
  have s: "member_socket
       \<in> snd (steps (W, \<lambda>_. {})
                [JoinBoard member_socket ''cboard001'', JoinWorkspace member_socket ''cworkspc1''])
           (board_room ''cboard001'')"
    by (simp add: steps_def join_board_def join_workspace_def workspace_room_def eval_defs)
  show ?thesis
    using m n e s
      join_board_gate[where st = W and b = "''cboard001''" and sock = member_socket
        and rs = "\<lambda>_. {}"
        and es = "[JoinBoard member_socket ''cboard001'', JoinWorkspace member_socket ''cworkspc1'']"
        and s = member_socket and b' = "''cboard001''"]
      join_board_gate[where st = W and b = "''cboard009''" and sock = member_socket
        and rs = "\<lambda>_. {}" and es = "[]"]
    by simp
qed


section \<open>The positions of a column\<close>

lemma ids_distinct_tasks: "unique_task_ids st \<Longrightarrow> distinct (tasks st)"
  by (simp add: unique_task_ids_def distinct_map)

lemma distinct_column_iff:
  assumes "unique_task_ids st"
  shows "(\<forall>c. distinct (column_positions st bid c)) \<longleftrightarrow> slots_free bid (tasks st)"
proof
  assume d: "\<forall>c. distinct (column_positions st bid c)"
  show "slots_free bid (tasks st)"
    unfolding slots_free_def
  proof (intro ballI impI)
    fix x y assume x: "x \<in> set (tasks st)" and y: "y \<in> set (tasks st)"
      and b: "t_boardId x = bid" and s: "same_slot x y"
    have i: "inj_on t_position (set (filter (in_column bid (t_columnId x)) (tasks st)))"
      using d by (simp add: column_positions_def distinct_map)
    have mx: "x \<in> set (filter (in_column bid (t_columnId x)) (tasks st))"
      using x b by (simp add: in_column_def)
    have my: "y \<in> set (filter (in_column bid (t_columnId x)) (tasks st))"
      using y s b by (simp add: in_column_def same_slot_def)
    have e: "t_position x = t_position y" using s by (simp add: same_slot_def)
    have "x = y" by (rule inj_onD[OF i e mx my])
    then show "t_id x = t_id y" by simp
  qed
next
  assume f: "slots_free bid (tasks st)"
  show "\<forall>c. distinct (column_positions st bid c)"
  proof (intro allI)
    fix c
    have "x = y"
      if "x \<in> set (tasks st)" "y \<in> set (tasks st)" "in_column bid c x" "in_column bid c y"
        "t_position x = t_position y" for x y
    proof -
      have "same_slot x y" "t_boardId x = bid"
        using that by (simp_all add: same_slot_def in_column_def)
      then have "t_id x = t_id y" using f that(1,2) unfolding slots_free_def by blast
      then show ?thesis using unique_ids_eq[OF assms that(2) that(1)] by simp
    qed
    then have "inj_on t_position (set (filter (in_column bid c) (tasks st)))"
      unfolding inj_on_def by simp
    then show "distinct (column_positions st bid c)"
      using ids_distinct_tasks[OF assms] by (simp add: column_positions_def distinct_map)
  qed
qed

lemma moved_column:
  "t_columnId (moved task body x) = (if t_id x = t_id task then mb_columnId body else t_columnId x)"
  by (simp add: moved_def)

lemma moved_position:
  "t_position (moved task body x) =
     (if t_id x = t_id task then mb_position body
      else if t_boardId x = t_boardId task \<and> t_columnId x = mb_columnId body
              \<and> mb_position body \<le> t_position x
      then t_position x + 1 else t_position x)"
  by (simp add: moved_def in_column_def)

lemma slots_free_moved:
  assumes u: "unique_task_ids st" and f: "slots_free bid (tasks st)"
    and t: "task \<in> set (tasks st)"
  shows "slots_free bid (map (moved task body) (tasks st))"
  unfolding slots_free_def
proof (intro ballI impI)
  fix x' y'
  assume "x' \<in> set (map (moved task body) (tasks st))"
    and "y' \<in> set (map (moved task body) (tasks st))"
    and xb: "t_boardId x' = bid"
    and s: "same_slot x' y'"
  then obtain x y where x: "x \<in> set (tasks st)" "x' = moved task body x"
    and y: "y \<in> set (tasks st)" "y' = moved task body y"
    by auto
  have bx: "t_id x = t_id task \<Longrightarrow> t_boardId x = t_boardId task"
    using unique_ids_eq[OF u t x(1)] by auto
  have "by": "t_id y = t_id task \<Longrightarrow> t_boardId y = t_boardId task"
    using unique_ids_eq[OF u t y(1)] by auto
  have "t_boardId x = bid" using xb x(2) by simp
  then have old: "t_boardId x = t_boardId y \<Longrightarrow> t_columnId x = t_columnId y
              \<Longrightarrow> t_position x = t_position y \<Longrightarrow> t_id x = t_id y"
    using f x(1) y(1) unfolding slots_free_def same_slot_def by blast
  have b: "t_boardId x = t_boardId y"
    using s unfolding x(2) y(2) same_slot_def by simp
  have c: "(if t_id x = t_id task then mb_columnId body else t_columnId x)
         = (if t_id y = t_id task then mb_columnId body else t_columnId y)"
    using s unfolding x(2) y(2) same_slot_def moved_column by simp
  have p: "(if t_id x = t_id task then mb_position body
      else if t_boardId x = t_boardId task \<and> t_columnId x = mb_columnId body
              \<and> mb_position body \<le> t_position x
      then t_position x + 1 else t_position x)
    = (if t_id y = t_id task then mb_position body
      else if t_boardId y = t_boardId task \<and> t_columnId y = mb_columnId body
              \<and> mb_position body \<le> t_position y
      then t_position y + 1 else t_position y)"
    using s unfolding x(2) y(2) same_slot_def moved_position by simp
  show "t_id x' = t_id y'"
  proof (cases "t_id x = t_id task")
    case True
    show ?thesis
    proof (cases "t_id y = t_id task")
      case True
      with \<open>t_id x = t_id task\<close> show ?thesis by (simp add: x(2) y(2))
    next
      case False
      with True b c p bx show ?thesis by (simp split: if_splits)
    qed
  next
    case False
    show ?thesis
    proof (cases "t_id y = t_id task")
      case True
      with False b c p "by" show ?thesis by (simp split: if_splits)
    next
      case ny: False
      from False ny c have c': "t_columnId x = t_columnId y" by simp
      from False ny p b c' have "t_position x = t_position y"
        by (simp split: if_splits)
      with old b c' show ?thesis by (simp add: x(2) y(2))
    qed
  qed
qed

lemma moveTask_tasks:
  assumes "unique_task_ids st"
  shows "tasks (fst (moveTask st uid i body)) = tasks st
       \<or> (\<exists>task\<in>set (tasks st).
             tasks (fst (moveTask st uid i body)) = map (moved task body) (tasks st))"
proof (cases "task_gate st uid (find_task st i) [ADMIN, MEMBER]")
  case (Inl e)
  then show ?thesis by (simp add: moveTask_failed)
next
  case (Inr r)
  obtain task wid where r: "r = (task, wid)" by (cases r)
  have g: "task_gate st uid (find_task st i) [ADMIN, MEMBER] = Inr (task, wid)"
    using Inr r by simp
  have "task \<in> set (tasks st)"
    using task_gate_Inr[OF g] find_task_Some by blast
  then show ?thesis
    using moveTask_outcome[OF assms g, of body]
    by (cases "writes_fit st task body") auto
qed

lemma maxPosition_None:
  "maxPosition_query st b c = None \<Longrightarrow> filter (in_column b c) (tasks st) = []"
proof -
  assume "maxPosition_query st b c = None"
  then have "sort_key (\<lambda>t. - t_position t) (filter (in_column b c) (tasks st)) = []"
    by (simp add: maxPosition_query_def split: list.splits)
  then have "set (sort_key (\<lambda>t. - t_position t) (filter (in_column b c) (tasks st))) = {}"
    by simp
  then show ?thesis by (simp del: filter_empty_conv)
qed

lemma maxPosition_Some:
  assumes "maxPosition_query st b c = Some m"
  shows "m \<in> set (filter (in_column b c) (tasks st))
       \<and> (\<forall>x\<in>set (filter (in_column b c) (tasks st)). t_position x \<le> t_position m)"
proof -
  let ?ys = "sort_key (\<lambda>t. - t_position t) (filter (in_column b c) (tasks st))"
  from assms obtain rest where ys: "?ys = m # rest"
    by (auto simp: maxPosition_query_def split: list.splits)
  have "sorted (map (\<lambda>t. - t_position t) ?ys)" by (rule sorted_sort_key)
  then have "\<forall>x\<in>set rest. - t_position m \<le> - t_position x"
    unfolding ys by simp
  then have le: "\<forall>x\<in>set ?ys. t_position x \<le> t_position m"
    unfolding ys by simp
  have "set ?ys = set (filter (in_column b c) (tasks st))" by simp
  moreover have "m \<in> set ?ys" unfolding ys by simp
  ultimately show ?thesis using le by blast
qed

lemma appended_position:
  assumes "tb_position body = None"
    and "x \<in> set (tasks st)" "in_column (tb_boardId body) (tb_columnId body) x"
  shows "t_position x <
           allocate_position (case tb_position body of None \<Rightarrow> 0 | Some p \<Rightarrow> p)
             (maxPosition_query st (tb_boardId body) (tb_columnId body))"
proof (cases "maxPosition_query st (tb_boardId body) (tb_columnId body)")
  case None
  then show ?thesis using maxPosition_None[OF None] assms(2,3)
    by (simp add: filter_empty_conv)
next
  case (Some m)
  have "t_position x \<le> t_position m"
    using maxPosition_Some[OF Some] assms(2,3) by simp
  then show ?thesis using Some assms(1) by (auto simp: allocate_position_def)
qed

lemma commit_keeps:
  assumes u: "unique_task_ids st" and f: "slots_free bid (tasks st)" and a: "appends op"
  shows "unique_task_ids (commit Z st op) \<and> slots_free bid (tasks (commit Z st op))"
proof (cases op)
  case (CreateTask uid n body)
  from createTask_cases[of Z st uid n body]
  show ?thesis
  proof
    assume "tasks (fst (createTask Z st uid n body)) = tasks st"
    then show ?thesis using u f CreateTask by (simp add: unique_task_ids_def)
  next
    assume "\<exists>t. tasks (fst (createTask Z st uid n body)) = tasks st @ [t]
          \<and> t_id t = n \<and> n \<notin> t_id ` set (tasks st)
          \<and> t_boardId t = tb_boardId body \<and> t_columnId t = tb_columnId body
          \<and> t_position t =
              allocate_position (case tb_position body of None \<Rightarrow> 0 | Some p \<Rightarrow> p)
                (maxPosition_query st (tb_boardId body) (tb_columnId body))
          \<and> opt_ok (\<lambda>p. 0 \<le> p) (tb_position body)"
    then obtain t where t: "tasks (fst (createTask Z st uid n body)) = tasks st @ [t]"
      "t_id t = n" "n \<notin> t_id ` set (tasks st)"
      "t_boardId t = tb_boardId body" "t_columnId t = tb_columnId body"
      "t_position t =
              allocate_position (case tb_position body of None \<Rightarrow> 0 | Some p \<Rightarrow> p)
                (maxPosition_query st (tb_boardId body) (tb_columnId body))"
      by blast
    have ap: "tb_position body = None"
      using a CreateTask by simp
    have lt: "t_position x < t_position t"
      if "x \<in> set (tasks st)" "t_boardId x = t_boardId t" "t_columnId x = t_columnId t" for x
      using appended_position[OF ap that(1)] that(2,3) t(4,5,6) by (simp add: in_column_def)
    have 1: "unique_task_ids (commit Z st op)"
      using u t(1,2,3) CreateTask by (simp add: unique_task_ids_def)
    have "t_id x = t_id y"
      if "x \<in> set (tasks st @ [t])" "y \<in> set (tasks st @ [t])" "t_boardId x = bid"
        "same_slot x y" for x y
    proof (cases "x = t")
      case True
      show ?thesis
      proof (cases "y = t")
        case True
        with \<open>x = t\<close> show ?thesis by simp
      next
        case False
        then have "y \<in> set (tasks st)" using that(2) by simp
        from lt[OF this] that(4) True show ?thesis by (simp add: same_slot_def)
      qed
    next
      case False
      then have xs: "x \<in> set (tasks st)" using that(1) by simp
      show ?thesis
      proof (cases "y = t")
        case True
        from lt[OF xs] that(4) True show ?thesis by (simp add: same_slot_def)
      next
        case False
        then have "y \<in> set (tasks st)" using that(2) by simp
        with xs f that(3,4) show ?thesis unfolding slots_free_def by blast
      qed
    qed
    then have "slots_free bid (tasks st @ [t])"
      unfolding slots_free_def by blast
    then have 2: "slots_free bid (tasks (commit Z st op))"
      using CreateTask t(1) by simp
    from 1 2 show ?thesis by simp
  qed
next
  case (MoveTask uid i body)
  from moveTask_tasks[OF u, of uid i body]
  show ?thesis
  proof
    assume "tasks (fst (moveTask st uid i body)) = tasks st"
    then show ?thesis using u f MoveTask by (simp add: unique_task_ids_def)
  next
    assume "\<exists>task\<in>set (tasks st).
             tasks (fst (moveTask st uid i body)) = map (moved task body) (tasks st)"
    then obtain task where t: "task \<in> set (tasks st)"
      "tasks (fst (moveTask st uid i body)) = map (moved task body) (tasks st)"
      by blast
    have "map t_id (map (moved task body) (tasks st)) = map t_id (tasks st)"
      by (simp add: comp_def)
    then have 1: "unique_task_ids (commit Z st op)"
      using u t(2) MoveTask by (simp add: unique_task_ids_def comp_def)
    have 2: "slots_free bid (tasks (commit Z st op))"
      using slots_free_moved[OF u f t(1), of body] t(2) MoveTask by simp
    from 1 2 show ?thesis by simp
  qed
qed

lemma run_keeps:
  "unique_task_ids st \<Longrightarrow> slots_free bid (tasks st) \<Longrightarrow> \<forall>op\<in>set ops. appends op \<Longrightarrow>
     unique_task_ids (run Z st ops) \<and> slots_free bid (tasks (run Z st ops))"
proof (induction ops arbitrary: st)
  case Nil
  then show ?case by (simp add: run_def)
next
  case (Cons op ops)
  have a: "appends op" using Cons.prems(3) by simp
  note k = commit_keeps[OF Cons.prems(1,2) a, of Z]
  have "\<forall>op\<in>set ops. appends op" using Cons.prems(3) by simp
  from Cons.IH[OF conjunct1[OF k] conjunct2[OF k] this]
  show ?case by (simp add: run_def)
qed


lemma dense_snoc: "dense ps \<Longrightarrow> dense (ps @ [int (length ps)])"
  by (auto simp: dense_def)

lemma allocate_dense:
  assumes "dense (column_positions st b c)"
  shows "allocate_position 0 (maxPosition_query st b c) = int (length (column_positions st b c))"
proof (cases "maxPosition_query st b c")
  case None
  then show ?thesis using maxPosition_None[OF None]
    by (simp add: allocate_position_def column_positions_def)
next
  case (Some m)
  let ?ps = "column_positions st b c"
  let ?n = "int (length ?ps)"
  from maxPosition_Some[OF Some]
  have m: "m \<in> set (filter (in_column b c) (tasks st))"
    and le: "\<forall>x\<in>set (filter (in_column b c) (tasks st)). t_position x \<le> t_position m"
    by simp_all
  have s: "set ?ps = {0 ..< ?n}" using assms by (simp add: dense_def)
  have "t_position m \<in> set ?ps" using m by (simp add: column_positions_def)
  then have up: "t_position m < ?n" using s by simp
  have "?ps \<noteq> []" using m by (auto simp: column_positions_def filter_empty_conv)
  then have "?n - 1 \<in> {0 ..< ?n}" by (cases ?ps) simp_all
  then have "?n - 1 \<in> set ?ps" using s by simp
  then obtain x where "x \<in> set (filter (in_column b c) (tasks st))" "t_position x = ?n - 1"
    by (auto simp: column_positions_def)
  then have "?n - 1 \<le> t_position m" using le by auto
  with up have "t_position m + 1 = ?n" by simp
  then show ?thesis using Some by (simp add: allocate_position_def)
qed

lemma create_dense:
  assumes d: "\<And>c. dense (column_positions st b c)"
    and a: "tb_position body = None"
  shows "dense (column_positions (fst (createTask Z st uid n body)) b c)"
proof -
  from createTask_cases[of Z st uid n body]
  show ?thesis
  proof
    assume "tasks (fst (createTask Z st uid n body)) = tasks st"
    then show ?thesis using d[of c] by (simp add: column_positions_def)
  next
    assume "\<exists>t. tasks (fst (createTask Z st uid n body)) = tasks st @ [t]
          \<and> t_id t = n \<and> n \<notin> t_id ` set (tasks st)
          \<and> t_boardId t = tb_boardId body \<and> t_columnId t = tb_columnId body
          \<and> t_position t =
              allocate_position (case tb_position body of None \<Rightarrow> 0 | Some p \<Rightarrow> p)
                (maxPosition_query st (tb_boardId body) (tb_columnId body))
          \<and> opt_ok (\<lambda>p. 0 \<le> p) (tb_position body)"
    then obtain t where t: "tasks (fst (createTask Z st uid n body)) = tasks st @ [t]"
      "t_boardId t = tb_boardId body" "t_columnId t = tb_columnId body"
      "t_position t =
              allocate_position (case tb_position body of None \<Rightarrow> 0 | Some p \<Rightarrow> p)
                (maxPosition_query st (tb_boardId body) (tb_columnId body))"
      by blast
    have z: "(case tb_position body of None \<Rightarrow> 0 | Some p \<Rightarrow> p) = 0"
      using a by auto
    show ?thesis
    proof (cases "in_column b c t")
      case True
      then have bc: "b = tb_boardId body" "c = tb_columnId body"
        using t(2,3) by (simp_all add: in_column_def)
      have "t_position t = int (length (column_positions st b c))"
        using t(4) z allocate_dense[OF d[of c]] bc by simp
      then have "column_positions (fst (createTask Z st uid n body)) b c
                   = column_positions st b c @ [int (length (column_positions st b c))]"
        using True t(1) by (simp add: column_positions_def)
      then show ?thesis using dense_snoc[OF d[of c]] by simp
    next
      case False
      then have "column_positions (fst (createTask Z st uid n body)) b c = column_positions st b c"
        using t(1) by (simp add: column_positions_def)
      then show ?thesis using d[of c] by simp
    qed
  qed
qed

lemma run_dense:
  "(\<And>c. dense (column_positions st b c)) \<Longrightarrow>
   \<forall>op\<in>set ops. appends op \<and> is_create op \<Longrightarrow>
   dense (column_positions (run Z st ops) b c)"
proof (induction ops arbitrary: st)
  case Nil
  then show ?case by (simp add: run_def)
next
  case (Cons op ops)
  from Cons.prems(2) have o: "appends op" "is_create op" by simp_all
  then obtain uid n body where op: "op = CreateTask uid n body" by (cases op) simp_all
  have a: "tb_position body = None" using o(1) op by simp
  have d: "\<And>c. dense (column_positions (commit Z st op) b c)"
    unfolding op commit.simps by (rule create_dense[OF Cons.prems(1) a])
  have r: "\<forall>op\<in>set ops. appends op \<and> is_create op" using Cons.prems(2) by simp
  from Cons.IH[OF d r] show ?case by (simp add: run_def)
qed

lemma empty_board_columns:
  "empty_board st bid \<Longrightarrow> column_positions st bid c = []"
proof -
  assume "empty_board st bid"
  then have "\<forall>t\<in>set (tasks st). t_boardId t \<noteq> bid"
    unfolding empty_board_def filter_empty_conv by blast
  then have "filter (in_column bid c) (tasks st) = []"
    unfolding filter_empty_conv in_column_def by blast
  then show ?thesis by (simp add: column_positions_def)
qed

lemma empty_board_slots: "empty_board st bid \<Longrightarrow> slots_free bid (tasks st)"
  unfolding empty_board_def filter_empty_conv slots_free_def by blast

text \<open>
  C1, as stated: after any sequence of committed createTask and moveTask operations on
  an empty board, the positions of every column are exactly \<open>0, ..., n - 1\<close>. It fails
  in three ways. A MEMBER creates A, B and C in column todo and moves B to column doing:
  todo is left with the positions 0 and 2. A MEMBER creates two tasks in column todo
  with the explicit position 5: both are stored at position 5. And two createTask
  requests without a position overlap, each reading the empty column before the other
  writes: both tasks are stored at position 0.
\<close>

theorem positions_dense_counterexample:
  "empty_board W ''cboard001''
   \<and> column_positions
       (run zod3 W
          [CreateTask ''cusermem1'' ''ctask0001'' (new_task ''A'' ''todo'' None),
           CreateTask ''cusermem1'' ''ctask0002'' (new_task ''B'' ''todo'' None),
           CreateTask ''cusermem1'' ''ctask0003'' (new_task ''C'' ''todo'' None),
           MoveTask ''cusermem1'' ''ctask0002'' \<lparr> mb_columnId = ''doing'', mb_position = 0 \<rparr>])
       ''cboard001'' ''todo'' = [0, 2]
   \<and> \<not> dense [0, 2]
   \<and> column_positions
       (run zod3 W
          [CreateTask ''cusermem1'' ''ctask0001'' (new_task ''A'' ''todo'' (Some 5)),
           CreateTask ''cusermem1'' ''ctask0002'' (new_task ''B'' ''todo'' (Some 5))])
       ''cboard001'' ''todo'' = [5, 5]
   \<and> \<not> dense [5, 5]
   \<and> column_positions
       (createTask_overlapped zod3 W
          ''cusermem1'' ''ctask0001'' (new_task ''A'' ''todo'' None)
          ''cuseradm1'' ''ctask0002'' (new_task ''B'' ''todo'' None))
       ''cboard001'' ''todo'' = [0, 0]
   \<and> \<not> dense [0, 0]"
proof -
  have 1: "column_positions
       (run zod3 W
          [CreateTask ''cusermem1'' ''ctask0001'' (new_task ''A'' ''todo'' None),
           CreateTask ''cusermem1'' ''ctask0002'' (new_task ''B'' ''todo'' None),
           CreateTask ''cusermem1'' ''ctask0003'' (new_task ''C'' ''todo'' None),
           MoveTask ''cusermem1'' ''ctask0002'' \<lparr> mb_columnId = ''doing'', mb_position = 0 \<rparr>])
       ''cboard001'' ''todo'' = [0, 2]"
    by (simp add: run_def eval_defs Let_def)
  have 2: "column_positions
       (run zod3 W
          [CreateTask ''cusermem1'' ''ctask0001'' (new_task ''A'' ''todo'' (Some 5)),
           CreateTask ''cusermem1'' ''ctask0002'' (new_task ''B'' ''todo'' (Some 5))])
       ''cboard001'' ''todo'' = [5, 5]"
    by (simp add: run_def eval_defs Let_def)
  have 3: "column_positions
       (createTask_overlapped zod3 W
          ''cusermem1'' ''ctask0001'' (new_task ''A'' ''todo'' None)
          ''cuseradm1'' ''ctask0002'' (new_task ''B'' ''todo'' None))
       ''cboard001'' ''todo'' = [0, 0]"
    by (simp add: createTask_overlapped_def eval_defs Let_def)
  have "(1::int) \<in> {0 ..< int (length [0::int, 2])}" by simp
  moreover have "(1::int) \<notin> set [0, 2]" by simp
  ultimately have 4: "\<not> dense [0, 2]" unfolding dense_def by blast
  have 5: "\<not> dense [5, 5]" "\<not> dense [0, 0]" by (simp_all add: dense_def)
  have 6: "empty_board W ''cboard001''" by (simp add: empty_board_def W_simps)
  from 1 2 3 4 5 6 show ?thesis by simp
qed

text \<open>
  C1, amended: take a store with unique task identifiers and a board that has no tasks,
  and serve on it, one at a time (no request overlapping another), any sequence of
  createTask requests that supply no position and of moveTask requests. Then the
  positions of the tasks of every column of the board are pairwise distinct. They need
  not be \<open>0, ..., n - 1\<close>: a move leaves a gap in the column the task comes from, and it
  can leave one in the column it goes to. When the sequence consists of such createTask
  requests only, the positions of every column of the board are exactly
  \<open>0, ..., n - 1\<close>. Requests that supply a position and requests that overlap are
  outside this statement.
\<close>

theorem positions_after_run:
  assumes "unique_task_ids st"
    and "empty_board st bid"
    and "\<forall>op\<in>set ops. appends op"
  shows "distinct (column_positions (run Z st ops) bid cid)
       \<and> ((\<forall>op\<in>set ops. is_create op) \<longrightarrow> dense (column_positions (run Z st ops) bid cid))"
proof
  note f = empty_board_slots[OF assms(2)]
  from run_keeps[OF assms(1) f assms(3), of Z]
  have "unique_task_ids (run Z st ops)" "slots_free bid (tasks (run Z st ops))" by simp_all
  then show "distinct (column_positions (run Z st ops) bid cid)"
    using distinct_column_iff[of "run Z st ops" bid] by blast
next
  show "(\<forall>op\<in>set ops. is_create op) \<longrightarrow> dense (column_positions (run Z st ops) bid cid)"
  proof
    assume c: "\<forall>op\<in>set ops. is_create op"
    have d: "\<And>c. dense (column_positions st bid c)"
      using empty_board_columns[OF assms(2)] by (simp add: dense_def)
    have "\<forall>op\<in>set ops. appends op \<and> is_create op" using assms(3) c by blast
    then show "dense (column_positions (run Z st ops) bid cid)"
      by (rule run_dense[OF d])
  qed
qed

text \<open>
  The witness starts from a store that holds a task of another board, at position 7.
\<close>

theorem positions_after_run_witness:
  "unique_task_ids (W\<lparr>tasks := [other_task]\<rparr>)
   \<and> empty_board (W\<lparr>tasks := [other_task]\<rparr>) ''cboard001''
   \<and> appends (CreateTask ''cusermem1'' ''ctask0001'' (new_task ''A'' ''todo'' None))
   \<and> appends (CreateTask ''cusermem1'' ''ctask0002'' (new_task ''B'' ''todo'' None))
   \<and> appends (MoveTask ''cusermem1'' ''ctask0001'' \<lparr> mb_columnId = ''todo'', mb_position = 2 \<rparr>)
   \<and> distinct (column_positions
       (run zod3 (W\<lparr>tasks := [other_task]\<rparr>)
          [CreateTask ''cusermem1'' ''ctask0001'' (new_task ''A'' ''todo'' None),
           CreateTask ''cusermem1'' ''ctask0002'' (new_task ''B'' ''todo'' None),
           MoveTask ''cusermem1'' ''ctask0001'' \<lparr> mb_columnId = ''todo'', mb_position = 2 \<rparr>])
       ''cboard001'' ''todo'')
   \<and> column_positions
       (run zod3 (W\<lparr>tasks := [other_task]\<rparr>)
          [CreateTask ''cusermem1'' ''ctask0001'' (new_task ''A'' ''todo'' None),
           CreateTask ''cusermem1'' ''ctask0002'' (new_task ''B'' ''todo'' None),
           MoveTask ''cusermem1'' ''ctask0001'' \<lparr> mb_columnId = ''todo'', mb_position = 2 \<rparr>])
       ''cboard001'' ''todo'' = [2, 1]
   \<and> is_create (CreateTask ''cusermem1'' ''ctask0001'' (new_task ''A'' ''todo'' None))
   \<and> is_create (CreateTask ''cusermem1'' ''ctask0002'' (new_task ''B'' ''todo'' None))
   \<and> dense (column_positions
       (run zod3 (W\<lparr>tasks := [other_task]\<rparr>)
          [CreateTask ''cusermem1'' ''ctask0001'' (new_task ''A'' ''todo'' None),
           CreateTask ''cusermem1'' ''ctask0002'' (new_task ''B'' ''todo'' None)])
       ''cboard001'' ''todo'')
   \<and> column_positions
       (run zod3 (W\<lparr>tasks := [other_task]\<rparr>)
          [CreateTask ''cusermem1'' ''ctask0001'' (new_task ''A'' ''todo'' None),
           CreateTask ''cusermem1'' ''ctask0002'' (new_task ''B'' ''todo'' None)])
       ''cboard001'' ''todo'' = [0, 1]"
proof -
  let ?S = "W\<lparr>tasks := [other_task]\<rparr>"
  have u: "unique_task_ids ?S" by (simp add: unique_task_ids_def)
  have e: "empty_board ?S ''cboard001''"
    by (simp add: empty_board_def other_task_def a_task_def)
  have a1: "appends (CreateTask ''cusermem1'' ''ctask0001'' (new_task ''A'' ''todo'' None))"
    and a2: "appends (CreateTask ''cusermem1'' ''ctask0002'' (new_task ''B'' ''todo'' None))"
    and a3: "appends (MoveTask ''cusermem1'' ''ctask0001'' \<lparr> mb_columnId = ''todo'', mb_position = 2 \<rparr>)"
    by (simp_all add: new_task_def)
  have l1: "\<forall>op\<in>set [CreateTask ''cusermem1'' ''ctask0001'' (new_task ''A'' ''todo'' None),
           CreateTask ''cusermem1'' ''ctask0002'' (new_task ''B'' ''todo'' None),
           MoveTask ''cusermem1'' ''ctask0001'' \<lparr> mb_columnId = ''todo'', mb_position = 2 \<rparr>].
         appends op"
    using a1 a2 a3 by simp
  have l2: "\<forall>op\<in>set [CreateTask ''cusermem1'' ''ctask0001'' (new_task ''A'' ''todo'' None),
           CreateTask ''cusermem1'' ''ctask0002'' (new_task ''B'' ''todo'' None)].
         appends op"
    using a1 a2 by simp
  have v1: "column_positions
       (run zod3 ?S
          [CreateTask ''cusermem1'' ''ctask0001'' (new_task ''A'' ''todo'' None),
           CreateTask ''cusermem1'' ''ctask0002'' (new_task ''B'' ''todo'' None),
           MoveTask ''cusermem1'' ''ctask0001'' \<lparr> mb_columnId = ''todo'', mb_position = 2 \<rparr>])
       ''cboard001'' ''todo'' = [2, 1]"
    by (simp add: run_def eval_defs other_task_def Let_def)
  have v2: "column_positions
       (run zod3 ?S
          [CreateTask ''cusermem1'' ''ctask0001'' (new_task ''A'' ''todo'' None),
           CreateTask ''cusermem1'' ''ctask0002'' (new_task ''B'' ''todo'' None)])
       ''cboard001'' ''todo'' = [0, 1]"
    by (simp add: run_def eval_defs other_task_def Let_def)
  show ?thesis
    using u e a1 a2 a3 v1 v2
      positions_after_run[OF u e l1, of zod3 "''todo''"]
      positions_after_run[OF u e l2, of zod3 "''todo''"]
    by simp
qed

end
